theory Spec2Isabelle
  imports Main "HOL-Library.Sublist"
begin

section \<open>The infrastructure template\<close>

text \<open>
  \<^verbatim>\<open>deployment/awsgenaimodelopt.template\<close> is a JSON document.  It is embedded as a JSON
  tree, objects as association lists in the order of the file, so that every lookup
  below is a lookup in the file.
\<close>

datatype json =
    JString string
  | JNumber int
  | JArray "json list"
  | JObject "(string \<times> json) list"

definition repository_url :: string where
  "repository_url = ''https://github.com/aws-solutions-library-samples/guidance-for-generative-ai-model-optimization-using-amazon-sagemaker''"

definition template :: json where
  "template = JObject [
    (''AWSTemplateFormatVersion'', JString ''2010-09-09''),
    (''Description'', JString ''SO9526 Template to provision SageMaker Notebook and upload the code repository.''),
    (''Parameters'', JObject [
      (''SageMakerNotebookName'', JObject [
        (''Default'', JString ''aws-llm-apps-blog''),
        (''Type'', JString ''String''),
        (''Description'', JString ''Enter name of SageMaker Notebook instance. The notebook name must _not_ already exist in your AWS account/region.''),
        (''MinLength'', JNumber 1),
        (''MaxLength'', JNumber 63),
        (''AllowedPattern'', JString ''^[a-z0-9](-*[a-z0-9])*''),
        (''ConstraintDescription'', JString ''Must be lowercase or numbers with a length of 1-63 characters.'')]),
      (''SageMakerIAMRole'', JObject [
        (''Description'', JString ''Name of IAM role that will be created by this CloudFormation template. The role name must _not_ already exist in your AWS account.''),
        (''Type'', JString ''String''),
        (''Default'', JString ''LLMAppsBlogIAMRole'')])]),
    (''Resources'', JObject [
      (''CodeRepository'', JObject [
        (''Type'', JString ''AWS::SageMaker::CodeRepository''),
        (''Properties'', JObject [
          (''GitConfig'', JObject [(''RepositoryUrl'', JString repository_url)])])]),
      (''NotebookInstance'', JObject [
        (''Type'', JString ''AWS::SageMaker::NotebookInstance''),
        (''Properties'', JObject [
          (''NotebookInstanceName'', JObject [(''Ref'', JString ''SageMakerNotebookName'')]),
          (''InstanceType'', JString ''ml.t3.2xlarge''),
          (''RoleArn'', JObject [(''Fn::GetAtt'', JArray [JString ''Role'', JString ''Arn''])]),
          (''DefaultCodeRepository'', JString repository_url)])]),
      (''Role'', JObject [
        (''Type'', JString ''AWS::IAM::Role''),
        (''Properties'', JObject [
          (''RoleName'', JObject [(''Ref'', JString ''SageMakerIAMRole'')]),
          (''Policies'', JArray [
            JObject [
              (''PolicyName'', JString ''CustomNotebookAccess''),
              (''PolicyDocument'', JObject [
                (''Version'', JString ''2012-10-17''),
                (''Statement'', JArray [
                  JObject [
                    (''Sid'', JString ''ReadWriteFromECR''),
                    (''Effect'', JString ''Allow''),
                    (''Action'', JArray [
                      JString ''ecr:BatchGetImage'',
                      JString ''ecr:BatchCheckLayerAvailability'',
                      JString ''ecr:CompleteLayerUpload'',
                      JString ''ecr:DescribeImages'',
                      JString ''ecr:DescribeRepositories'',
                      JString ''ecr:GetDownloadUrlForLayer'',
                      JString ''ecr:InitiateLayerUpload'',
                      JString ''ecr:ListImages'',
                      JString ''ecr:PutImage'',
                      JString ''ecr:UploadLayerPart'',
                      JString ''ecr:CreateRepository'',
                      JString ''ecr:GetAuthorizationToken'',
                      JString ''ec2:DescribeAvailabilityZones'']),
                    (''Resource'', JArray [
                      JObject [(''Fn::Sub'', JString ''arn:aws:ecr:${AWS::Region}:${AWS::AccountId}:repository/*'')]])]])])]]),
          (''ManagedPolicyArns'', JArray [
            JString ''arn:aws:iam::aws:policy/AmazonSageMakerFullAccess'',
            JString ''arn:aws:iam::aws:policy/AWSCloudFormationReadOnlyAccess'',
            JString ''arn:aws:iam::aws:policy/TranslateReadOnly'']),
          (''AssumeRolePolicyDocument'', JObject [
            (''Version'', JString ''2012-10-17''),
            (''Statement'', JArray [
              JObject [
                (''Effect'', JString ''Allow''),
                (''Principal'', JObject [(''Service'', JArray [JString ''sagemaker.amazonaws.com''])]),
                (''Action'', JArray [JString ''sts:AssumeRole''])]])])])])]),
    (''Outputs'', JObject [
      (''SageMakerNotebookURL'', JObject [
        (''Description'', JString ''SageMaker Notebook Instance''),
        (''Value'', JObject [
          (''Fn::Join'', JArray [
            JString '''',
            JArray [
              JObject [(''Fn::Sub'', JString ''https://console.aws.amazon.com/sagemaker/home?region=${AWS::Region}#/notebook-instances/openNotebook/'')],
              JObject [(''Fn::GetAtt'', JArray [JString ''NotebookInstance'', JString ''NotebookInstanceName''])],
              JString ''?view=classic'']])])])])]"

subsection \<open>Reading the tree\<close>

fun field :: "string \<Rightarrow> json \<Rightarrow> json option" where
  "field k (JObject kvs) = map_of kvs k"
| "field k _ = None"

fun at_path :: "string list \<Rightarrow> json \<Rightarrow> json option" where
  "at_path [] j = Some j"
| "at_path (k # ks) j = (case field k j of None \<Rightarrow> None | Some j' \<Rightarrow> at_path ks j')"

fun elements :: "json option \<Rightarrow> json list" where
  "elements (Some (JArray js)) = js"
| "elements _ = []"

fun keys :: "json option \<Rightarrow> string list" where
  "keys (Some (JObject kvs)) = map fst kvs"
| "keys _ = []"

text \<open>The declaration of a template parameter, and the constraints it carries.\<close>

definition parameter :: "string \<Rightarrow> json option" where
  "parameter name = at_path [''Parameters'', name] template"

definition parameter_names :: "string list" where
  "parameter_names = keys (field ''Parameters'' template)"

fun min_length_at_least :: "int \<Rightarrow> json option \<Rightarrow> bool" where
  "min_length_at_least n (Some decl) =
     (case field ''MinLength'' decl of Some (JNumber m) \<Rightarrow> n \<le> m | _ \<Rightarrow> False)"
| "min_length_at_least n None = False"

fun has_allowed_pattern :: "json option \<Rightarrow> bool" where
  "has_allowed_pattern (Some decl) =
     (case field ''AllowedPattern'' decl of Some (JString p) \<Rightarrow> True | _ \<Rightarrow> False)"
| "has_allowed_pattern None = False"

definition validated_non_empty :: "string \<Rightarrow> bool" where
  "validated_non_empty name =
     (min_length_at_least 1 (parameter name) \<and> has_allowed_pattern (parameter name))"

text \<open>The role resource, its inline policy statements and its managed policies.\<close>

definition role_properties :: "json option" where
  "role_properties = at_path [''Resources'', ''Role'', ''Properties''] template"

definition inline_statements :: "json list" where
  "inline_statements =
     concat (map (\<lambda>p. elements (at_path [''PolicyDocument'', ''Statement''] p))
                 (elements (case role_properties of None \<Rightarrow> None | Some r \<Rightarrow> field ''Policies'' r)))"

definition managed_policy_arns :: "json list" where
  "managed_policy_arns =
     elements (case role_properties of None \<Rightarrow> None | Some r \<Rightarrow> field ''ManagedPolicyArns'' r)"

definition actions :: "json \<Rightarrow> json list" where
  "actions statement = elements (field ''Action'' statement)"

definition resources :: "json \<Rightarrow> json list" where
  "resources statement = elements (field ''Resource'' statement)"

definition ecr_repository_arn :: json where
  "ecr_repository_arn =
     JObject [(''Fn::Sub'', JString ''arn:aws:ecr:${AWS::Region}:${AWS::AccountId}:repository/*'')]"

fun is_ecr_action :: "json \<Rightarrow> bool" where
  "is_ecr_action (JString a) = (take 4 a = ''ecr:'')"
| "is_ecr_action _ = False"

definition read_only_managed_policies :: "json list" where
  "read_only_managed_policies =
     [JString ''arn:aws:iam::aws:policy/AWSCloudFormationReadOnlyAccess'',
      JString ''arn:aws:iam::aws:policy/TranslateReadOnly'']"

text \<open>
  ``No broader access than these'': every action of every inline statement is a registry
  action, and every managed policy is one of the two read-only ones.
\<close>

definition no_broader_access :: bool where
  "no_broader_access =
     (list_all (\<lambda>s. list_all is_ecr_action (actions s)) inline_statements \<and>
      list_all (\<lambda>p. p \<in> set read_only_managed_policies) managed_policy_arns)"

definition resource_scoped :: "json \<Rightarrow> bool" where
  "resource_scoped statement =
     (resources statement \<noteq> [] \<and>
      list_all (\<lambda>r. r = ecr_repository_arn) (resources statement) \<and>
      JString ''*'' \<notin> set (resources statement))"

section \<open>The notebooks\<close>

text \<open>
  A notebook is a list of cells.  A code cell is Python source, embedded as its syntax
  tree: expressions and statements follow Python's \<^verbatim>\<open>ast\<close> module (\<^verbatim>\<open>Constant\<close> split by the
  type of the literal, \<^verbatim>\<open>keyword\<close> arguments as named pairs).  A line starting with \<^verbatim>\<open>%\<close>
  or \<^verbatim>\<open>!\<close> is an IPython command and is kept as text.  Comments are not statements and
  are dropped; markdown cells are text that is never run, so they carry no payload.
  \<^verbatim>\<open>If\<close> and \<^verbatim>\<open>Try\<close> (with a handler that catches every exception) are the two
  compound statements of Python the properties below speak about.
\<close>

datatype binop = Add | Div

datatype expr =
    Str string
  | Num int
  | FloatLit string
  | BoolLit bool
  | Name string
  | Attribute expr string
  | Call expr "expr list" "(string \<times> expr) list"
  | Dict "(expr \<times> expr) list"
  | ListE "expr list"
  | BinOp expr binop expr
  | JoinedStr "expr list"

datatype stmt =
    Import string
  | ImportFrom string "string list"
  | Assign string expr
  | Expr expr
  | If expr "stmt list" "stmt list"
  | Try "stmt list" "stmt list"
  | IPython string

datatype cell = Markdown | Code "stmt list"

subsection \<open>Cells that are the same text in all four notebooks\<close>

text \<open>\<^verbatim>\<open>%pip install sagemaker>=2.225.0 boto3 huggingface_hub --upgrade --quiet\<close>\<close>

definition install_cell :: cell where
  "install_cell = Code [
     IPython ''%pip install sagemaker>=2.225.0 boto3 huggingface_hub --upgrade --quiet'']"

definition imports_cell :: cell where
  "imports_cell = Code [
     Import ''boto3'',
     ImportFrom ''sagemaker.serve.builder.model_builder'' [''ModelBuilder''],
     ImportFrom ''sagemaker.serve.builder.schema_builder'' [''SchemaBuilder''],
     ImportFrom ''sagemaker.session'' [''Session''],
     Import ''logging'',
     Import ''huggingface_hub'',
     ImportFrom ''pathlib'' [''Path'']]"

definition session_cell :: cell where
  "session_cell = Code [
     Assign ''sagemaker_session'' (Call (Name ''Session'') [] []),
     Assign ''artifacts_bucket_name''
       (Call (Attribute (Name ''sagemaker_session'') ''default_bucket'') [] []),
     Assign ''execution_role_arn''
       (Call (Attribute (Name ''sagemaker_session'') ''get_caller_identity_arn'') [] []),
     Assign ''js_model_id'' (Str ''meta-textgeneration-llama-3-70b''),
     Assign ''gpu_instance_type'' (Str ''ml.p4d.24xlarge''),
     Assign ''neuron_instance_type'' (Str ''ml.inf2.48xlarge'')]"

definition schema_cell :: cell where
  "schema_cell = Code [
     Assign ''response''
       (Str ''Hello, I'm a language model, and I'm here to help you with your English.''),
     Assign ''sample_input''
       (Dict [(Str ''inputs'', Str ''Hello, I'm a language model,''),
              (Str ''parameters'',
               Dict [(Str ''max_new_tokens'', Num 128),
                     (Str ''top_p'', FloatLit ''0.9''),
                     (Str ''temperature'', FloatLit ''0.6'')])]),
     Assign ''sample_output'' (ListE [Dict [(Str ''generated_text'', Name ''response'')]]),
     Assign ''schema_builder''
       (Call (Name ''SchemaBuilder'') [Name ''sample_input'', Name ''sample_output''] [])]"

text \<open>The model handle of notebooks 1 to 3; notebook 4 leaves \<^verbatim>\<open>log_level\<close> out.\<close>

definition model_builder_cell :: cell where
  "model_builder_cell = Code [
     Assign ''model_builder''
       (Call (Name ''ModelBuilder'') []
          [(''model'', Name ''js_model_id''),
           (''schema_builder'', Name ''schema_builder''),
           (''sagemaker_session'', Name ''sagemaker_session''),
           (''role_arn'', Name ''execution_role_arn''),
           (''log_level'', Attribute (Name ''logging'') ''ERROR'')])]"

definition deploy_cell :: cell where
  "deploy_cell = Code [
     Assign ''predictor''
       (Call (Attribute (Name ''optimized_model'') ''deploy'') []
          [(''accept_eula'', BoolLit True)])]"

definition predict_cell :: cell where
  "predict_cell = Code [
     Expr (Call (Attribute (Name ''predictor'') ''predict'') [Name ''sample_input''] [])]"

definition cleanup_cell :: cell where
  "cleanup_cell = Code [
     Expr (Call (Attribute (Name ''predictor'') ''delete_model'') [] []),
     Expr (Call (Attribute (Name ''predictor'') ''delete_endpoint'') []
             [(''delete_endpoint_config'', BoolLit True)])]"

subsection \<open>Notebook 1: speculative decoding with the provided draft model\<close>

definition nb1 :: "cell list" where
  "nb1 = [
     Markdown,
     install_cell,
     Markdown,
     imports_cell,
     session_cell,
     schema_cell,
     Markdown,
     model_builder_cell,
     Markdown,
     Code [Expr (Call (Attribute (Name ''model_builder'') ''display_benchmark_metrics'') [] [])],
     Markdown,
     Code [Expr (Call (Attribute (Name ''model_builder'') ''set_deployment_config'') []
                   [(''config_name'', Str ''lmi-optimized''),
                    (''instance_type'', Str ''ml.g5.48xlarge'')])],
     Markdown,
     Code [Expr (Call (Attribute (Name ''model_builder'') ''get_deployment_config'') [] [])],
     Markdown,
     Code [Assign ''optimized_model''
             (Call (Attribute (Name ''model_builder'') ''build'') [] [])],
     deploy_cell,
     Markdown,
     predict_cell,
     cleanup_cell]"

subsection \<open>Notebook 2: speculative decoding with an open-source draft model\<close>

definition nb2 :: "cell list" where
  "nb2 = [
     Markdown,
     install_cell,
     Markdown,
     imports_cell,
     session_cell,
     schema_cell,
     Markdown,
     Code [
       Assign ''custom_draft_model_id'' (Str ''meta-llama/Meta-Llama-3-8B''),
       Assign ''hf_local_download_dir''
         (BinOp (Call (Attribute (Name ''Path'') ''cwd'') [] []) Div (Str ''model_repo'')),
       Expr (Call (Attribute (Name ''hf_local_download_dir'') ''mkdir'') []
               [(''exist_ok'', BoolLit True)]),
       Expr (Call (Attribute (Name ''huggingface_hub'') ''snapshot_download'') []
               [(''repo_id'', Name ''custom_draft_model_id''),
                (''revision'', Str ''main''),
                (''local_dir'', Name ''hf_local_download_dir''),
                (''local_dir_use_symlinks'', BoolLit False)])],
     Code [
       Assign ''custom_draft_model_uri''
         (Call (Attribute (Name ''sagemaker_session'') ''upload_data'') []
            [(''path'', Call (Attribute (Name ''hf_local_download_dir'') ''as_posix'') [] []),
             (''bucket'', Name ''artifacts_bucket_name''),
             (''key_prefix'', Str ''spec-dec-custom-draft-model'')])],
     Code [
       Assign ''draft_uri'' (BinOp (Name ''custom_draft_model_uri'') Add (Str ''/'')),
       Expr (Name ''draft_uri'')],
     Code [IPython ''!aws s3 ls {draft_uri} #verify model artifacts''],
     model_builder_cell,
     Markdown,
     Code [
       Assign ''optimized_model''
         (Call (Attribute (Name ''model_builder'') ''optimize'') []
            [(''instance_type'', Name ''gpu_instance_type''),
             (''accept_eula'', BoolLit True),
             (''speculative_decoding_config'',
              Dict [(Str ''ModelSource'', Name ''draft_uri'')])])],
     Markdown,
     deploy_cell,
     Markdown,
     predict_cell,
     cleanup_cell]"

subsection \<open>Notebook 3: quantization with AWQ\<close>

definition nb3 :: "cell list" where
  "nb3 = [
     Markdown,
     install_cell,
     Markdown,
     imports_cell,
     session_cell,
     schema_cell,
     Markdown,
     model_builder_cell,
     Markdown,
     Code [
       Assign ''optimized_model''
         (Call (Attribute (Name ''model_builder'') ''optimize'') []
            [(''instance_type'', Name ''gpu_instance_type''),
             (''accept_eula'', BoolLit True),
             (''quantization_config'',
              Dict [(Str ''OverrideEnvironment'',
                     Dict [(Str ''OPTION_QUANTIZE'', Str ''awq'')])]),
             (''output_path'',
              JoinedStr [Str ''s3://'', Name ''artifacts_bucket_name'',
                         Str ''/awq-quantization/''])])],
     Markdown,
     Code [
       Assign ''quantized_instance_type'' (Str ''ml.g5.12xlarge''),
       Assign ''predictor''
         (Call (Attribute (Name ''optimized_model'') ''deploy'') []
            [(''instance_type'', Name ''quantized_instance_type''),
             (''accept_eula'', BoolLit True)])],
     Markdown,
     predict_cell,
     cleanup_cell]"

subsection \<open>Notebook 4: compilation with the Neuron compiler\<close>

definition nb4 :: "cell list" where
  "nb4 = [
     Markdown,
     install_cell,
     Markdown,
     imports_cell,
     session_cell,
     schema_cell,
     Markdown,
     Code [
       Assign ''model_builder''
         (Call (Name ''ModelBuilder'') []
            [(''model'', Name ''js_model_id''),
             (''schema_builder'', Name ''schema_builder''),
             (''sagemaker_session'', Name ''sagemaker_session''),
             (''role_arn'', Name ''execution_role_arn'')])],
     Markdown,
     Code [
       Assign ''optimized_model''
         (Call (Attribute (Name ''model_builder'') ''optimize'') []
            [(''instance_type'', Name ''neuron_instance_type''),
             (''accept_eula'', BoolLit True),
             (''compilation_config'',
              Dict [(Str ''OverrideEnvironment'',
                     Dict [(Str ''OPTION_TENSOR_PARALLEL_DEGREE'', Str ''24''),
                           (Str ''OPTION_N_POSITIONS'', Str ''8192''),
                           (Str ''OPTION_DTYPE'', Str ''fp16''),
                           (Str ''OPTION_ROLLING_BATCH'', Str ''auto''),
                           (Str ''OPTION_MAX_ROLLING_BATCH_SIZE'', Str ''4''),
                           (Str ''OPTION_NEURON_OPTIMIZE_LEVEL'', Str ''2'')])]),
             (''output_path'',
              JoinedStr [Str ''s3://'', Name ''artifacts_bucket_name'', Str ''/neuron/''])])],
     Markdown,
     Code [
       Assign ''predictor''
         (Call (Attribute (Name ''optimized_model'') ''deploy'') []
            [(''accept_eula'', BoolLit True),
             (''model_data_download_timeout'', Num 3600),
             (''volume_size'', Num 512)])],
     Markdown,
     predict_cell,
     cleanup_cell]"

definition notebooks :: "cell list list" where
  "notebooks = [nb1, nb2, nb3, nb4]"

section \<open>Running a notebook\<close>

text \<open>
  The notebooks only assemble arguments and call into libraries, so a run is described by
  the calls it makes.  Every call is opaque: it is recorded in the trace with the values
  of its callee and arguments, and returns a fresh result named by its position in the
  trace.  Whether the \<open>k\<close>-th recorded call raises is a parameter \<open>F\<close> of the run.  An
  unbound name raises \<^verbatim>\<open>NameError\<close>, as in Python.  Operators and f-strings are computed on
  known strings and kept symbolic on call results.  An exception ends the block it occurs
  in unless a \<^verbatim>\<open>Try\<close> statement handles it; ``Run All'' stops at the first cell that raises.
\<close>

text \<open>
  Values: literals, dictionaries and lists of values, a name brought in by an import (by
  its qualified name), an attribute of a value (a bound method, a member of a module),
  the result of the call recorded at a position of the trace, and an operator or an
  f-string applied to values that are not all known strings.
\<close>

datatype val =
    VStr string
  | VInt int
  | VFloat string
  | VBool bool
  | VDict "(val \<times> val) list"
  | VList "val list"
  | VImported string
  | VAttr val string
  | VResult nat
  | VBinOp val binop val
  | VFormat "val list"

text \<open>
  \<open>Raised k\<close> is the exception of the call recorded at position \<open>k\<close>: whatever the library
  raised there, unchanged.
\<close>

datatype exc = NameError string | Raised nat

text \<open>Events carry the index of the cell they occur in.\<close>

datatype event =
    Command nat string
  | Invoke nat val "val list" "(string \<times> val) list"

record state =
  env :: "(string \<times> val) list"
  trace :: "event list"
  cell :: nat

fun as_str :: "val \<Rightarrow> string option" where
  "as_str (VStr s) = Some s"
| "as_str _ = None"

fun binop_val :: "val \<Rightarrow> binop \<Rightarrow> val \<Rightarrow> val" where
  "binop_val (VStr a) Add (VStr b) = VStr (a @ b)"
| "binop_val (VInt a) Add (VInt b) = VInt (a + b)"
| "binop_val a opr b = VBinOp a opr b"

definition format_val :: "val list \<Rightarrow> val" where
  "format_val vs = (if list_all (\<lambda>v. as_str v \<noteq> None) vs
                    then VStr (concat (map (\<lambda>v. the (as_str v)) vs)) else VFormat vs)"

text \<open>
  A call evaluates its callee, then its positional arguments, then its keyword arguments,
  from left to right, and then calls; a dictionary evaluates each key before its value.
  The first exception ends the evaluation.
\<close>

function (sequential) eval :: "(nat \<Rightarrow> bool) \<Rightarrow> expr \<Rightarrow> state \<Rightarrow> (exc + val) \<times> state"
and eval_list :: "(nat \<Rightarrow> bool) \<Rightarrow> expr list \<Rightarrow> state \<Rightarrow> (exc + val list) \<times> state"
and eval_items :: "(nat \<Rightarrow> bool) \<Rightarrow> (expr \<times> expr) list \<Rightarrow> state \<Rightarrow> (exc + (val \<times> val) list) \<times> state"
and eval_keywords :: "(nat \<Rightarrow> bool) \<Rightarrow> (string \<times> expr) list \<Rightarrow> state \<Rightarrow> (exc + (string \<times> val) list) \<times> state"
where
  "eval F (Str s) st = (Inr (VStr s), st)"
| "eval F (Num n) st = (Inr (VInt n), st)"
| "eval F (FloatLit d) st = (Inr (VFloat d), st)"
| "eval F (BoolLit b) st = (Inr (VBool b), st)"
| "eval F (Name x) st =
     (case map_of (env st) x of
        None \<Rightarrow> (Inl (NameError x), st)
      | Some v \<Rightarrow> (Inr v, st))"
| "eval F (Attribute e a) st =
     (case eval F e st of
        (Inl x, st1) \<Rightarrow> (Inl x, st1)
      | (Inr v, st1) \<Rightarrow> (Inr (VAttr v a), st1))"
| "eval F (Call f as kws) st =
     (case eval F f st of
        (Inl x, st1) \<Rightarrow> (Inl x, st1)
      | (Inr fv, st1) \<Rightarrow>
     (case eval_list F as st1 of
        (Inl x, st2) \<Rightarrow> (Inl x, st2)
      | (Inr avs, st2) \<Rightarrow>
     (case eval_keywords F kws st2 of
        (Inl x, st3) \<Rightarrow> (Inl x, st3)
      | (Inr kvs, st3) \<Rightarrow>
          (if F (length (trace st3)) then Inl (Raised (length (trace st3)))
           else Inr (VResult (length (trace st3))),
           st3\<lparr>trace := trace st3 @ [Invoke (cell st3) fv avs kvs]\<rparr>))))"
| "eval F (Dict items) st =
     (case eval_items F items st of
        (Inl x, st1) \<Rightarrow> (Inl x, st1)
      | (Inr kvs, st1) \<Rightarrow> (Inr (VDict kvs), st1))"
| "eval F (ListE es) st =
     (case eval_list F es st of
        (Inl x, st1) \<Rightarrow> (Inl x, st1)
      | (Inr vs, st1) \<Rightarrow> (Inr (VList vs), st1))"
| "eval F (BinOp a opr b) st =
     (case eval F a st of
        (Inl x, st1) \<Rightarrow> (Inl x, st1)
      | (Inr va, st1) \<Rightarrow>
     (case eval F b st1 of
        (Inl x, st2) \<Rightarrow> (Inl x, st2)
      | (Inr vb, st2) \<Rightarrow> (Inr (binop_val va opr vb), st2)))"
| "eval F (JoinedStr es) st =
     (case eval_list F es st of
        (Inl x, st1) \<Rightarrow> (Inl x, st1)
      | (Inr vs, st1) \<Rightarrow> (Inr (format_val vs), st1))"
| "eval_list F [] st = (Inr [], st)"
| "eval_list F (e # es) st =
     (case eval F e st of
        (Inl x, st1) \<Rightarrow> (Inl x, st1)
      | (Inr v, st1) \<Rightarrow>
     (case eval_list F es st1 of
        (Inl x, st2) \<Rightarrow> (Inl x, st2)
      | (Inr vs, st2) \<Rightarrow> (Inr (v # vs), st2)))"
| "eval_items F [] st = (Inr [], st)"
| "eval_items F ((k, e) # items) st =
     (case eval F k st of
        (Inl x, st1) \<Rightarrow> (Inl x, st1)
      | (Inr kv, st1) \<Rightarrow>
     (case eval F e st1 of
        (Inl x, st2) \<Rightarrow> (Inl x, st2)
      | (Inr v, st2) \<Rightarrow>
     (case eval_items F items st2 of
        (Inl x, st3) \<Rightarrow> (Inl x, st3)
      | (Inr kvs, st3) \<Rightarrow> (Inr ((kv, v) # kvs), st3))))"
| "eval_keywords F [] st = (Inr [], st)"
| "eval_keywords F ((k, e) # kws) st =
     (case eval F e st of
        (Inl x, st1) \<Rightarrow> (Inl x, st1)
      | (Inr v, st1) \<Rightarrow>
     (case eval_keywords F kws st1 of
        (Inl x, st2) \<Rightarrow> (Inl x, st2)
      | (Inr kvs, st2) \<Rightarrow> (Inr ((k, v) # kvs), st2)))"
  by pat_completeness auto
termination
  by (relation "measure (\<lambda>x. case x of
        Inl (Inl (F, e, st)) \<Rightarrow> size e
      | Inl (Inr (F, es, st)) \<Rightarrow> size_list size es
      | Inr (Inl (F, items, st)) \<Rightarrow> size_list (size_prod size size) items
      | Inr (Inr (F, kws, st)) \<Rightarrow> size_list (size_prod (\<lambda>_. 0) size) kws)") auto

text \<open>
  Truth of a value as Python tests it: an empty string, zero and an empty container are
  false; an object that defines no test of its own is true.  A float literal is zero
  when its mantissa has no digit but \<^verbatim>\<open>0\<close>.
\<close>

definition nonzero_literal :: "string \<Rightarrow> bool" where
  "nonzero_literal d =
     list_ex (\<lambda>c. c \<in> set ''123456789'')
             (takeWhile (\<lambda>c. c \<noteq> CHR ''e'' \<and> c \<noteq> CHR ''E'') d)"

fun truthy :: "val \<Rightarrow> bool" where
  "truthy (VBool b) = b"
| "truthy (VStr s) = (s \<noteq> [])"
| "truthy (VInt n) = (n \<noteq> 0)"
| "truthy (VFloat d) = nonzero_literal d"
| "truthy (VDict kvs) = (kvs \<noteq> [])"
| "truthy (VList vs) = (vs \<noteq> [])"
| "truthy _ = True"

text \<open>
  Statements.  An import binds the module, or each imported name; an assignment binds
  its target to the value; an IPython command is recorded and does not raise.  \<^verbatim>\<open>Try\<close>
  runs its handler from the state the body was left in when any exception occurred.
\<close>

fun exec :: "(nat \<Rightarrow> bool) \<Rightarrow> stmt \<Rightarrow> state \<Rightarrow> exc option \<times> state"
and exec_block :: "(nat \<Rightarrow> bool) \<Rightarrow> stmt list \<Rightarrow> state \<Rightarrow> exc option \<times> state"
where
  "exec F (Import m) st = (None, st\<lparr>env := (m, VImported m) # env st\<rparr>)"
| "exec F (ImportFrom m ns) st =
     (None, st\<lparr>env := rev (map (\<lambda>n. (n, VImported (m @ ''.'' @ n))) ns) @ env st\<rparr>)"
| "exec F (Assign x e) st =
     (case eval F e st of
        (Inl ex, st1) \<Rightarrow> (Some ex, st1)
      | (Inr v, st1) \<Rightarrow> (None, st1\<lparr>env := (x, v) # env st1\<rparr>))"
| "exec F (Expr e) st =
     (case eval F e st of
        (Inl ex, st1) \<Rightarrow> (Some ex, st1)
      | (Inr v, st1) \<Rightarrow> (None, st1))"
| "exec F (If c body orelse) st =
     (case eval F c st of
        (Inl ex, st1) \<Rightarrow> (Some ex, st1)
      | (Inr v, st1) \<Rightarrow> (if truthy v then exec_block F body st1 else exec_block F orelse st1))"
| "exec F (Try body handler) st =
     (case exec_block F body st of
        (Some ex, st1) \<Rightarrow> exec_block F handler st1
      | (None, st1) \<Rightarrow> (None, st1))"
| "exec F (IPython line) st = (None, st\<lparr>trace := trace st @ [Command (cell st) line]\<rparr>)"
| "exec_block F [] st = (None, st)"
| "exec_block F (s # ss) st =
     (case exec F s st of
        (Some ex, st1) \<Rightarrow> (Some ex, st1)
      | (None, st1) \<Rightarrow> exec_block F ss st1)"

text \<open>Cells run in the order of the notebook; a markdown cell does nothing.\<close>

fun run_cells :: "(nat \<Rightarrow> bool) \<Rightarrow> cell list \<Rightarrow> state \<Rightarrow> exc option \<times> state" where
  "run_cells F [] st = (None, st)"
| "run_cells F (Markdown # cs) st = run_cells F cs (st\<lparr>cell := Suc (cell st)\<rparr>)"
| "run_cells F (Code body # cs) st =
     (case exec_block F body st of
        (Some ex, st1) \<Rightarrow> (Some ex, st1)
      | (None, st1) \<Rightarrow> run_cells F cs (st1\<lparr>cell := Suc (cell st1)\<rparr>))"

definition run :: "(nat \<Rightarrow> bool) \<Rightarrow> cell list \<Rightarrow> exc option \<times> state" where
  "run F nb = run_cells F nb \<lparr>env = [], trace = [], cell = 0\<rparr>"

text \<open>The run in which no call raises.\<close>

definition all_succeed :: "nat \<Rightarrow> bool" where
  "all_succeed k = False"

definition calls :: "cell list \<Rightarrow> event list" where
  "calls nb = trace (snd (run all_succeed nb))"

definition bindings :: "cell list \<Rightarrow> (string \<times> val) list" where
  "bindings nb = env (snd (run all_succeed nb))"

section \<open>Reading a trace\<close>

fun event_cell :: "event \<Rightarrow> nat" where
  "event_cell (Command c line) = c"
| "event_cell (Invoke c f as kws) = c"

fun method_name :: "event \<Rightarrow> string option" where
  "method_name (Invoke c (VAttr r m) as kws) = Some m"
| "method_name _ = None"

fun receiver :: "event \<Rightarrow> val option" where
  "receiver (Invoke c (VAttr r m) as kws) = Some r"
| "receiver _ = None"

fun positional :: "event \<Rightarrow> val list" where
  "positional (Invoke c f as kws) = as"
| "positional (Command c line) = []"

fun keyword_args :: "event \<Rightarrow> (string \<times> val) list" where
  "keyword_args (Invoke c f as kws) = kws"
| "keyword_args (Command c line) = []"

text \<open>
  The name an event goes by: the line of a command, the qualified name of an imported
  callable, the name of a method.
\<close>

fun callee_name :: "event \<Rightarrow> string" where
  "callee_name (Command c line) = line"
| "callee_name (Invoke c (VImported f) as kws) = f"
| "callee_name (Invoke c (VAttr r m) as kws) = m"
| "callee_name (Invoke c f as kws) = []"

definition keyword :: "string \<Rightarrow> event \<Rightarrow> val option" where
  "keyword k e = map_of (keyword_args e) k"

definition method_calls :: "string \<Rightarrow> cell list \<Rightarrow> event list" where
  "method_calls m nb = filter (\<lambda>e. method_name e = Some m) (calls nb)"

definition events_at :: "nat \<Rightarrow> cell list \<Rightarrow> event list" where
  "events_at c nb = filter (\<lambda>e. event_cell e = c) (calls nb)"

text \<open>The event that produced a value, when the value is the result of a recorded call.\<close>

fun producer :: "event list \<Rightarrow> val \<Rightarrow> event option" where
  "producer tr (VResult k) = (if k < length tr then Some (tr ! k) else None)"
| "producer tr _ = None"

subsection \<open>The steps of a notebook\<close>

datatype step =
    Install | Schema | ModelHandle | SelectConfig | Build | Optimize | Deploy | Predict
  | DeleteModel | DeleteEndpoint

fun step_of_method :: "string \<Rightarrow> step option" where
  "step_of_method m =
     (if m = ''set_deployment_config'' then Some SelectConfig
      else if m = ''build'' then Some Build
      else if m = ''optimize'' then Some Optimize
      else if m = ''deploy'' then Some Deploy
      else if m = ''predict'' then Some Predict
      else if m = ''delete_model'' then Some DeleteModel
      else if m = ''delete_endpoint'' then Some DeleteEndpoint
      else None)"

fun step_of :: "event \<Rightarrow> step option" where
  "step_of (Command c line) = (if take 12 line = ''%pip install'' then Some Install else None)"
| "step_of (Invoke c (VImported f) as kws) =
     (if f = ''sagemaker.serve.builder.schema_builder.SchemaBuilder'' then Some Schema
      else if f = ''sagemaker.serve.builder.model_builder.ModelBuilder'' then Some ModelHandle
      else None)"
| "step_of (Invoke c (VAttr r m) as kws) = step_of_method m"
| "step_of (Invoke c f as kws) = None"

definition steps :: "cell list \<Rightarrow> step list" where
  "steps nb = List.map_filter step_of (calls nb)"

text \<open>
  Each step together with the step that produced the object it is called on: the deploy
  call is made on what the optimize (or build) call returned, and so on.
\<close>

definition made_on :: "event list \<Rightarrow> event \<Rightarrow> step option" where
  "made_on tr e =
     (case receiver e of
        None \<Rightarrow> None
      | Some r \<Rightarrow> (case producer tr r of None \<Rightarrow> None | Some p \<Rightarrow> step_of p))"

definition lineage :: "cell list \<Rightarrow> (step \<times> step option) list" where
  "lineage nb =
     List.map_filter
       (\<lambda>e. case step_of e of None \<Rightarrow> None | Some s \<Rightarrow> Some (s, made_on (calls nb) e))
       (calls nb)"

text \<open>The sequence the specification gives for every notebook.\<close>

definition claimed_sequence :: "step list" where
  "claimed_sequence =
     [Install, Schema, ModelHandle, Optimize, Deploy, Predict, DeleteModel, DeleteEndpoint]"

definition performs_claimed_sequence :: "cell list \<Rightarrow> bool" where
  "performs_claimed_sequence nb =
     (filter (\<lambda>s. s \<in> set claimed_sequence) (steps nb) = claimed_sequence)"

definition optimizes_before_deploying :: "cell list \<Rightarrow> bool" where
  "optimizes_before_deploying nb =
     (Deploy \<in> set (steps nb) \<and> Optimize \<in> set (takeWhile (\<lambda>s. s \<noteq> Deploy) (steps nb)))"

definition model_ids :: "cell list \<Rightarrow> val option list" where
  "model_ids nb = map (keyword ''model'') (filter (\<lambda>e. step_of e = Some ModelHandle) (calls nb))"

definition published_model_id :: val where
  "published_model_id = VStr ''meta-textgeneration-llama-3-70b''"

subsection \<open>Optimization requests and their configurations\<close>

definition passes_output_path :: "cell list \<Rightarrow> bool" where
  "passes_output_path nb =
     (method_calls ''optimize'' nb \<noteq> [] \<and>
      list_all (\<lambda>e. keyword ''output_path'' e \<noteq> None) (method_calls ''optimize'' nb))"

definition config_keywords :: "string list" where
  "config_keywords = [''quantization_config'', ''compilation_config'', ''speculative_decoding_config'']"

definition optimization_configs :: "cell list \<Rightarrow> val list" where
  "optimization_configs nb =
     concat (map (\<lambda>e. map snd (filter (\<lambda>kv. fst kv \<in> set config_keywords) (keyword_args e)))
                 (method_calls ''optimize'' nb))"

fun is_str :: "val \<Rightarrow> bool" where
  "is_str (VStr s) = True"
| "is_str _ = False"

fun string_mapping :: "val \<Rightarrow> bool" where
  "string_mapping (VDict kvs) = list_all (\<lambda>kv. is_str (fst kv) \<and> is_str (snd kv)) kvs"
| "string_mapping _ = False"

datatype kind = EnvironmentMapping | DraftModelPointer

fun config_kind :: "val \<Rightarrow> kind option" where
  "config_kind (VDict [(VStr k, v)]) =
     (if k = ''OverrideEnvironment'' \<and> string_mapping v then Some EnvironmentMapping
      else if k = ''ModelSource'' then Some DraftModelPointer
      else None)"
| "config_kind _ = None"

fun model_source :: "val \<Rightarrow> val option" where
  "model_source (VDict kvs) = map_of kvs (VStr ''ModelSource'')"
| "model_source _ = None"

subsection \<open>Inference and teardown\<close>

fun code :: "cell \<Rightarrow> stmt list option" where
  "code Markdown = None"
| "code (Code body) = Some body"

fun last_code_cell_from :: "nat \<Rightarrow> cell list \<Rightarrow> nat option" where
  "last_code_cell_from i [] = None"
| "last_code_cell_from i (c # cs) =
     (case last_code_cell_from (Suc i) cs of
        Some j \<Rightarrow> Some j
      | None \<Rightarrow> (case code c of None \<Rightarrow> None | Some body \<Rightarrow> Some i))"

definition last_code_cell :: "cell list \<Rightarrow> nat option" where
  "last_code_cell nb = last_code_cell_from 0 nb"

definition is_teardown :: "event \<Rightarrow> bool" where
  "is_teardown e = (step_of e = Some DeleteModel \<or> step_of e = Some DeleteEndpoint)"

text \<open>
  One inference call, on the sample input, in a cell before the last code cell; the
  last code cell makes exactly the two delete calls, on the object the inference call was
  made on, the second with \<^verbatim>\<open>delete_endpoint_config=True\<close>; and from the first delete
  call on the trace holds nothing but these two calls.
\<close>

definition predicts_once_then_tears_down :: "cell list \<Rightarrow> bool" where
  "predicts_once_then_tears_down nb =
     (case (method_calls ''predict'' nb, last_code_cell nb) of
        ([p], Some c) \<Rightarrow>
          (case events_at c nb of
             [d1, d2] \<Rightarrow>
               map Some (positional p) = [map_of (bindings nb) ''sample_input''] \<and>
               event_cell p < c \<and>
               made_on (calls nb) p = Some Deploy \<and>
               step_of d1 = Some DeleteModel \<and> step_of d2 = Some DeleteEndpoint \<and>
               receiver d1 = receiver p \<and> receiver d2 = receiver p \<and>
               keyword ''delete_endpoint_config'' d2 = Some (VBool True) \<and>
               dropWhile (\<lambda>e. \<not> is_teardown e) (calls nb) = [d1, d2]
           | _ \<Rightarrow> False)
      | _ \<Rightarrow> False)"

subsection \<open>Instance types\<close>

definition instance_types :: "string \<Rightarrow> cell list \<Rightarrow> val option list" where
  "instance_types m nb = map (keyword ''instance_type'') (method_calls m nb)"

text \<open>
  The prerequisites of notebook 1: the two lines under \<^verbatim>\<open>**Notices:**\<close> in its first
  markdown cell.  The instance types a line names are its words over
  \<^verbatim>\<open>[a-z0-9.]\<close> that start with \<^verbatim>\<open>ml.\<close>.
\<close>

definition nb1_notices :: "string list" where
  "nb1_notices = [
     ''* Make sure that the `ml.p4d.24xlarge` and `ml.inf2.48xlarge` instance types required for the tutorials are available in your AWS Region.'',
     ''* Make sure that the value of your \"ml.p4d.24xlarge for endpoint usage\" and \"ml.inf2.48xlarge for endpoint usage\" Amazon SageMaker service quotas allow you to deploy at least one Amazon SageMaker endpoint using these instance types.'']"

definition name_char :: "char \<Rightarrow> bool" where
  "name_char c = (c \<in> set ''abcdefghijklmnopqrstuvwxyz0123456789.'')"

fun words_from :: "string \<Rightarrow> string \<Rightarrow> string list" where
  "words_from w [] = (if w = [] then [] else [rev w])"
| "words_from w (c # cs) =
     (if name_char c then words_from (c # w) cs
      else if w = [] then words_from [] cs
      else rev w # words_from [] cs)"

definition instance_types_named :: "string list \<Rightarrow> string list" where
  "instance_types_named ls =
     remdups (filter (\<lambda>w. take 3 w = ''ml.'') (concat (map (words_from []) ls)))"

text \<open>
  An instance type is named \<^verbatim>\<open>ml.family.size\<close>.  The sizes the notebooks use are multiples
  of \<^verbatim>\<open>xlarge\<close>, and the name gives the multiple (\<^verbatim>\<open>12xlarge\<close>, \<^verbatim>\<open>24xlarge\<close>, \<^verbatim>\<open>48xlarge\<close>);
  an instance type is smaller than another when its multiple is.
\<close>

definition digit_values :: "(char \<times> nat) list" where
  "digit_values = zip ''0123456789'' [0, 1, 2, 3, 4, 5, 6, 7, 8, 9]"

fun number :: "nat \<Rightarrow> string \<Rightarrow> nat option" where
  "number n [] = Some n"
| "number n (c # cs) =
     (case map_of digit_values c of None \<Rightarrow> None | Some d \<Rightarrow> number (10 * n + d) cs)"

definition size_name :: "string \<Rightarrow> string" where
  "size_name t = rev (takeWhile (\<lambda>c. c \<noteq> CHR ''.'') (rev t))"

definition xlarge_multiple :: "string \<Rightarrow> nat option" where
  "xlarge_multiple t =
     (let ds = takeWhile (\<lambda>c. c \<in> set ''0123456789'') (size_name t) in
      if drop (length ds) (size_name t) = ''xlarge''
      then (if ds = [] then Some 1 else number 0 ds)
      else None)"

fun instance_size :: "val option \<Rightarrow> nat option" where
  "instance_size (Some (VStr t)) = xlarge_multiple t"
| "instance_size _ = None"

definition smaller :: "val option \<Rightarrow> val option \<Rightarrow> bool" where
  "smaller a b =
     (case (instance_size a, instance_size b) of (Some m, Some n) \<Rightarrow> m < n | _ \<Rightarrow> False)"

text \<open>
  The comment of notebook 3 on the line that binds \<^verbatim>\<open>quantized_instance_type\<close>, and its
  words.
\<close>

definition quantized_instance_type_comment :: string where
  "quantized_instance_type_comment = ''# We can use a smaller instance type once quantized''"

definition comment_words :: "string \<Rightarrow> string list" where
  "comment_words line = words_from [] line"

subsection \<open>Compound statements\<close>

fun compound :: "stmt \<Rightarrow> bool" where
  "compound (If c body orelse) = True"
| "compound (Try body handler) = True"
| "compound _ = False"

fun flat_cell :: "cell \<Rightarrow> bool" where
  "flat_cell Markdown = True"
| "flat_cell (Code body) = list_all (\<lambda>s. \<not> compound s) body"

definition flat :: "cell list \<Rightarrow> bool" where
  "flat nb = list_all flat_cell nb"

fun is_invoke :: "event \<Rightarrow> bool" where
  "is_invoke (Invoke c f as kws) = True"
| "is_invoke (Command c line) = False"

text \<open>The \<open>k\<close>-th event of the run is a call, and it raised.\<close>

definition raised_at :: "(nat \<Rightarrow> bool) \<Rightarrow> cell list \<Rightarrow> nat \<Rightarrow> bool" where
  "raised_at F nb k =
     (k < length (trace (snd (run F nb))) \<and> is_invoke (trace (snd (run F nb)) ! k) \<and> F k)"

text \<open>
  What a run has recorded agrees with its outcome: either no recorded call raised, or the
  run ended with \<open>Raised k\<close> and the \<open>k\<close>-th event, the last one, is the only call that
  raised.
\<close>

definition no_raise :: "(nat \<Rightarrow> bool) \<Rightarrow> event list \<Rightarrow> bool" where
  "no_raise F tr = (\<forall>k<length tr. is_invoke (tr ! k) \<longrightarrow> \<not> F k)"

definition raise_last :: "(nat \<Rightarrow> bool) \<Rightarrow> event list \<Rightarrow> nat \<Rightarrow> bool" where
  "raise_last F tr k =
     (length tr = Suc k \<and> is_invoke (tr ! k) \<and> F k \<and> no_raise F (butlast tr))"

fun consistent :: "(nat \<Rightarrow> bool) \<Rightarrow> event list \<Rightarrow> exc option \<Rightarrow> bool" where
  "consistent F tr (Some (Raised k)) = raise_last F tr k"
| "consistent F tr _ = no_raise F tr"

fun raised :: "exc + 'a \<Rightarrow> exc option" where
  "raised (Inl x) = Some x"
| "raised (Inr v) = None"

text \<open>
  A run in which calls may raise follows the run in which none does: it ends in the same
  state when it ends without an exception, and otherwise its trace is a prefix.
\<close>

fun follows :: "(exc + 'a) \<times> state \<Rightarrow> (exc + 'a) \<times> state \<Rightarrow> bool" where
  "follows (Inr v, st') full = (full = (Inr v, st'))"
| "follows (Inl x, st') full = prefix (trace st') (trace (snd full))"

fun follows_stmt :: "exc option \<times> state \<Rightarrow> exc option \<times> state \<Rightarrow> bool" where
  "follows_stmt (None, st') full = (full = (None, st'))"
| "follows_stmt (Some x, st') full = prefix (trace st') (trace (snd full))"

text \<open>
  In the run under \<open>F\<close>, a call of step \<open>s\<close> is made; a call of step \<open>s\<close> is made and
  returns, that is, does not raise.  The deploy call waits for step \<open>s\<close> when it is made
  only in runs in which a call of step \<open>s\<close> has returned.
\<close>

definition made :: "(nat \<Rightarrow> bool) \<Rightarrow> cell list \<Rightarrow> step \<Rightarrow> bool" where
  "made F nb s = list_ex (\<lambda>e. step_of e = Some s) (trace (snd (run F nb)))"

definition returned :: "(nat \<Rightarrow> bool) \<Rightarrow> cell list \<Rightarrow> step \<Rightarrow> bool" where
  "returned F nb s =
     list_ex (\<lambda>ke. step_of (snd ke) = Some s \<and> \<not> F (fst ke))
             (enumerate 0 (trace (snd (run F nb))))"

definition deploy_waits_for :: "step \<Rightarrow> (nat \<Rightarrow> bool) \<Rightarrow> cell list \<Rightarrow> bool" where
  "deploy_waits_for s F nb = (made F nb Deploy \<longrightarrow> returned F nb s)"

subsection \<open>The values the setup cells leave behind\<close>

definition sample_input_value :: val where
  "sample_input_value =
     VDict [(VStr ''inputs'', VStr ''Hello, I'm a language model,''),
            (VStr ''parameters'',
             VDict [(VStr ''max_new_tokens'', VInt 128),
                    (VStr ''top_p'', VFloat ''0.9''),
                    (VStr ''temperature'', VFloat ''0.6'')])]"

definition sample_response :: val where
  "sample_response =
     VStr ''Hello, I'm a language model, and I'm here to help you with your English.''"

definition sample_output_value :: val where
  "sample_output_value = VList [VDict [(VStr ''generated_text'', sample_response)]]"

definition setup_trace :: "event list" where
  "setup_trace =
     [Command 1 ''%pip install sagemaker>=2.225.0 boto3 huggingface_hub --upgrade --quiet'',
      Invoke 4 (VImported ''sagemaker.session.Session'') [] [],
      Invoke 4 (VAttr (VResult 1) ''default_bucket'') [] [],
      Invoke 4 (VAttr (VResult 1) ''get_caller_identity_arn'') [] [],
      Invoke 5 (VImported ''sagemaker.serve.builder.schema_builder.SchemaBuilder'')
        [sample_input_value, sample_output_value] []]"

definition setup_names :: "string list" where
  "setup_names =
     [''%pip install sagemaker>=2.225.0 boto3 huggingface_hub --upgrade --quiet'',
      ''sagemaker.session.Session'',
      ''default_bucket'',
      ''get_caller_identity_arn'',
      ''sagemaker.serve.builder.schema_builder.SchemaBuilder'']"

definition setup_bindings :: "(string \<times> val) list" where
  "setup_bindings =
     [(''schema_builder'', VResult 4),
      (''sample_output'', sample_output_value),
      (''sample_input'', sample_input_value),
      (''response'', sample_response),
      (''neuron_instance_type'', VStr ''ml.inf2.48xlarge''),
      (''gpu_instance_type'', VStr ''ml.p4d.24xlarge''),
      (''js_model_id'', VStr ''meta-textgeneration-llama-3-70b''),
      (''execution_role_arn'', VResult 3),
      (''artifacts_bucket_name'', VResult 2),
      (''sagemaker_session'', VResult 1),
      (''Path'', VImported ''pathlib.Path''),
      (''huggingface_hub'', VImported ''huggingface_hub''),
      (''logging'', VImported ''logging''),
      (''Session'', VImported ''sagemaker.session.Session''),
      (''SchemaBuilder'', VImported ''sagemaker.serve.builder.schema_builder.SchemaBuilder''),
      (''ModelBuilder'', VImported ''sagemaker.serve.builder.model_builder.ModelBuilder''),
      (''boto3'', VImported ''boto3'')]"

definition model_builder_keywords :: "(string \<times> val) list" where
  "model_builder_keywords =
     [(''model'', VStr ''meta-textgeneration-llama-3-70b''),
      (''schema_builder'', VResult 4),
      (''sagemaker_session'', VResult 1),
      (''role_arn'', VResult 3)]"

definition log_level_error :: "(string \<times> val) list" where
  "log_level_error = [(''log_level'', VAttr (VImported ''logging'') ''ERROR'')]"

section \<open>Properties of every run\<close>

subsection \<open>The trace agrees with the outcome\<close>

lemma no_raise_invoke:
  "no_raise F (tr @ [Invoke c f as kws]) = (no_raise F tr \<and> \<not> F (length tr))"
  by (auto simp: no_raise_def nth_append less_Suc_eq)

lemma no_raise_command:
  "no_raise F (tr @ [Command c line]) = no_raise F tr"
  by (auto simp: no_raise_def nth_append less_Suc_eq)

lemma raise_last_invoke:
  "no_raise F tr \<Longrightarrow> F (length tr) \<Longrightarrow> raise_last F (tr @ [Invoke c f as kws]) (length tr)"
  by (simp add: raise_last_def)

lemma eval_consistent:
  "no_raise F (trace st) \<Longrightarrow> consistent F (trace (snd (eval F e st))) (raised (fst (eval F e st)))"
  "no_raise F (trace st) \<Longrightarrow> consistent F (trace (snd (eval_list F es st))) (raised (fst (eval_list F es st)))"
  "no_raise F (trace st) \<Longrightarrow> consistent F (trace (snd (eval_items F items st))) (raised (fst (eval_items F items st)))"
  "no_raise F (trace st) \<Longrightarrow> consistent F (trace (snd (eval_keywords F kws st))) (raised (fst (eval_keywords F kws st)))"
proof (induction F e st and F es st and F items st and F kws st
       rule: eval_eval_list_eval_items_eval_keywords.induct)
  case (7 F f as kws st)
  then show ?case
    by (auto simp: no_raise_invoke raise_last_invoke split: prod.splits sum.splits)
qed (auto split: prod.splits sum.splits option.splits)


lemma exec_consistent:
  assumes "\<not> compound s" and nr: "no_raise F (trace st)"
  shows "consistent F (trace (snd (exec F s st))) (fst (exec F s st))"
proof (cases s)
  case (Assign x e)
  with eval_consistent(1) [OF nr, of e] show ?thesis
    by (auto split: prod.splits sum.splits)
next
  case (Expr e)
  with eval_consistent(1) [OF nr, of e] show ?thesis
    by (auto split: prod.splits sum.splits)
qed (use assms in \<open>auto simp: no_raise_command\<close>)

lemma exec_block_consistent:
  "list_all (\<lambda>s. \<not> compound s) body \<Longrightarrow> no_raise F (trace st) \<Longrightarrow>
   consistent F (trace (snd (exec_block F body st))) (fst (exec_block F body st))"
proof (induction body arbitrary: st)
  case Nil
  then show ?case by simp
next
  case (Cons s body)
  from Cons.prems have s: "\<not> compound s" and body: "list_all (\<lambda>s. \<not> compound s) body"
    by simp_all
  obtain r st1 where ex: "exec F s st = (r, st1)"
    by (cases "exec F s st")
  from exec_consistent [OF s Cons.prems(2)] ex
  have c1: "consistent F (trace st1) r" by simp
  show ?case
  proof (cases r)
    case None
    with c1 have "no_raise F (trace st1)" by simp
    from Cons.IH [OF body this] ex None show ?thesis by simp
  next
    case (Some x)
    with c1 ex show ?thesis by simp
  qed
qed

lemma run_cells_consistent:
  "flat nb \<Longrightarrow> no_raise F (trace st) \<Longrightarrow>
   consistent F (trace (snd (run_cells F nb st))) (fst (run_cells F nb st))"
proof (induction nb arbitrary: st)
  case Nil
  then show ?case by simp
next
  case (Cons c nb)
  from Cons.prems have c: "flat_cell c" and nb: "flat nb"
    by (simp_all add: flat_def)
  show ?case
  proof (cases c)
    case Markdown
    with Cons.IH [OF nb, of "st\<lparr>cell := Suc (cell st)\<rparr>"] Cons.prems(2)
    show ?thesis by simp
  next
    case (Code body)
    obtain r st1 where ex: "exec_block F body st = (r, st1)"
      by (cases "exec_block F body st")
    from c Code have "list_all (\<lambda>s. \<not> compound s) body" by simp
    from exec_block_consistent [OF this Cons.prems(2)] ex
    have c1: "consistent F (trace st1) r" by simp
    show ?thesis
    proof (cases r)
      case None
      with c1 have "no_raise F (trace st1)" by simp
      with Cons.IH [OF nb, of "st1\<lparr>cell := Suc (cell st1)\<rparr>"] Code ex None
      show ?thesis by simp
    next
      case (Some x)
      with c1 ex Code show ?thesis by simp
    qed
  qed
qed

lemma run_consistent:
  "flat nb \<Longrightarrow> consistent F (trace (snd (run F nb))) (fst (run F nb))"
  unfolding run_def by (rule run_cells_consistent) (simp_all add: no_raise_def)

lemma consistent_raised:
  assumes "consistent F tr r" and "k < length tr" and "is_invoke (tr ! k)" and "F k"
  shows "r = Some (Raised k)"
proof (cases r)
  case None
  with assms show ?thesis by (auto simp: no_raise_def)
next
  case (Some x)
  show ?thesis
  proof (cases x)
    case (NameError n)
    with Some assms show ?thesis by (auto simp: no_raise_def)
  next
    case (Raised j)
    with Some assms(1) have len: "length tr = Suc j" and nr: "no_raise F (butlast tr)"
      by (simp_all add: raise_last_def)
    have "k = j"
    proof (rule ccontr)
      assume "k \<noteq> j"
      with len assms(2) have "k < j" by simp
      with len have "k < length (butlast tr)" by simp
      with nr assms(3,4) show False
        by (simp add: no_raise_def nth_butlast)
    qed
    with Some Raised show ?thesis by simp
  qed
qed

subsection \<open>A run follows the run in which no call raises\<close>

lemma eval_grows:
  "prefix xs (trace st) \<Longrightarrow> prefix xs (trace (snd (eval F e st)))"
  "prefix xs (trace st) \<Longrightarrow> prefix xs (trace (snd (eval_list F es st)))"
  "prefix xs (trace st) \<Longrightarrow> prefix xs (trace (snd (eval_items F items st)))"
  "prefix xs (trace st) \<Longrightarrow> prefix xs (trace (snd (eval_keywords F kws st)))"
proof (induction F e st and F es st and F items st and F kws st
       arbitrary: xs and xs and xs and xs
       rule: eval_eval_list_eval_items_eval_keywords.induct)
qed (auto split: prod.splits sum.splits option.splits)

lemma grows_case:
  assumes "prefix xs (trace (snd p))"
    and "\<And>v st1. prefix xs (trace st1) \<Longrightarrow> prefix xs (trace (snd (k v st1)))"
  shows "prefix xs (trace (snd (case p of (Inl x, st1) \<Rightarrow> (Inl x, st1) | (Inr v, st1) \<Rightarrow> k v st1)))"
  using assms by (auto split: prod.splits sum.splits)

lemma follows_case:
  assumes "follows p p'"
    and "\<And>v st1. p = (Inr v, st1) \<Longrightarrow> follows (k v st1) (k' v st1)"
    and "\<And>v st1 xs. prefix xs (trace st1) \<Longrightarrow> prefix xs (trace (snd (k' v st1)))"
  shows "follows (case p of (Inl x, st1) \<Rightarrow> (Inl x, st1) | (Inr v, st1) \<Rightarrow> k v st1)
                 (case p' of (Inl x, st1) \<Rightarrow> (Inl x, st1) | (Inr v, st1) \<Rightarrow> k' v st1)"
proof (cases p)
  case (Pair r st1)
  show ?thesis
  proof (cases r)
    case (Inl x)
    with Pair assms(1) have "prefix (trace st1) (trace (snd p'))" by simp
    then have "prefix (trace st1)
        (trace (snd (case p' of (Inl x, st1) \<Rightarrow> (Inl x, st1) | (Inr v, st1) \<Rightarrow> k' v st1)))"
      by (rule grows_case) (rule assms(3))
    with Pair Inl show ?thesis by simp
  next
    case (Inr v)
    with Pair assms(1) have "p' = (Inr v, st1)" by simp
    with Pair Inr assms(2) [of v st1] show ?thesis by simp
  qed
qed

lemma all_succeed_False: "\<not> all_succeed k"
  by (simp add: all_succeed_def)

lemma follows_value [simp]: "follows (Inr v, st) (Inr v, st)" "follows (Inl x, st) (r, st)"
  by simp_all

lemma eval_follows:
  "follows (eval F e st) (eval all_succeed e st)"
  "follows (eval_list F es st) (eval_list all_succeed es st)"
  "follows (eval_items F items st) (eval_items all_succeed items st)"
  "follows (eval_keywords F kws st) (eval_keywords all_succeed kws st)"
proof (induction F e st and F es st and F items st and F kws st
       rule: eval_eval_list_eval_items_eval_keywords.induct)
qed (auto intro!: follows_case grows_case eval_grows split: option.splits simp: all_succeed_False)


lemma eval_grows_to:
  "eval F e st = (r, st') \<Longrightarrow> prefix xs (trace st) \<Longrightarrow> prefix xs (trace st')"
  using eval_grows(1) [of xs st F e] by simp

lemma exec_grows:
  "prefix xs (trace st) \<Longrightarrow> prefix xs (trace (snd (exec F s st)))"
  "prefix xs (trace st) \<Longrightarrow> prefix xs (trace (snd (exec_block F ss st)))"
proof (induction F s st and F ss st arbitrary: xs and xs rule: exec_exec_block.induct)
  case (5 F c body orelse st)
  obtain r st1 where e: "eval F c st = (r, st1)"
    by (cases "eval F c st")
  from e "5.prems" have "prefix xs (trace st1)"
    by (rule eval_grows_to)
  with "5.IH" e show ?case
    by (cases r) auto
qed (auto split: prod.splits sum.splits option.splits intro: eval_grows_to)


lemma grows_case_stmt:
  assumes "prefix xs (trace (snd p))"
    and "\<And>st1. prefix xs (trace st1) \<Longrightarrow> prefix xs (trace (snd (k st1)))"
  shows "prefix xs (trace (snd (case p of (Some x, st1) \<Rightarrow> (Some x, st1) | (None, st1) \<Rightarrow> k st1)))"
  using assms by (auto split: prod.splits option.splits)

lemma follows_case_stmt:
  assumes "follows_stmt p p'"
    and "\<And>st1. p = (None, st1) \<Longrightarrow> follows_stmt (k st1) (k' st1)"
    and "\<And>st1 xs. prefix xs (trace st1) \<Longrightarrow> prefix xs (trace (snd (k' st1)))"
  shows "follows_stmt (case p of (Some x, st1) \<Rightarrow> (Some x, st1) | (None, st1) \<Rightarrow> k st1)
                      (case p' of (Some x, st1) \<Rightarrow> (Some x, st1) | (None, st1) \<Rightarrow> k' st1)"
proof (cases p)
  case (Pair r st1)
  show ?thesis
  proof (cases r)
    case (Some x)
    with Pair assms(1) have "prefix (trace st1) (trace (snd p'))" by simp
    then have "prefix (trace st1)
        (trace (snd (case p' of (Some x, st1) \<Rightarrow> (Some x, st1) | (None, st1) \<Rightarrow> k' st1)))"
      by (rule grows_case_stmt) (rule assms(3))
    with Pair Some show ?thesis by simp
  next
    case None
    with Pair assms(1) have "p' = (None, st1)" by simp
    with Pair None assms(2) [of st1] show ?thesis by simp
  qed
qed

lemma exec_follows:
  assumes "\<not> compound s"
  shows "follows_stmt (exec F s st) (exec all_succeed s st)"
proof (cases s)
  case (Assign x e)
  with eval_follows(1) [of F e st] show ?thesis
    by (cases "eval F e st"; cases "fst (eval F e st)") (auto split: prod.splits sum.splits)
next
  case (Expr e)
  with eval_follows(1) [of F e st] show ?thesis
    by (cases "eval F e st"; cases "fst (eval F e st)") (auto split: prod.splits sum.splits)
qed (use assms in auto)

lemma exec_block_follows:
  "list_all (\<lambda>s. \<not> compound s) body \<Longrightarrow>
   follows_stmt (exec_block F body st) (exec_block all_succeed body st)"
proof (induction body arbitrary: st)
  case Nil
  then show ?case by simp
next
  case (Cons s body)
  then show ?case
    by (auto intro!: follows_case_stmt exec_follows exec_grows)
qed

lemma run_cells_grows:
  "prefix xs (trace st) \<Longrightarrow> prefix xs (trace (snd (run_cells F nb st)))"
proof (induction nb arbitrary: st)
  case Nil
  then show ?case by simp
next
  case (Cons c nb)
  show ?case
  proof (cases c)
    case Markdown
    with Cons show ?thesis by simp
  next
    case (Code body)
    from Cons.prems have "prefix xs (trace (snd (exec_block F body st)))"
      by (rule exec_grows)
    with Code Cons.IH show ?thesis
      by (auto split: prod.splits option.splits)
  qed
qed

lemma run_cells_follows:
  "flat nb \<Longrightarrow> follows_stmt (run_cells F nb st) (run_cells all_succeed nb st)"
proof (induction nb arbitrary: st)
  case Nil
  then show ?case by simp
next
  case (Cons c nb)
  from Cons.prems have c: "flat_cell c" and nb: "flat nb"
    by (simp_all add: flat_def)
  show ?case
  proof (cases c)
    case Markdown
    with Cons.IH [OF nb] show ?thesis by simp
  next
    case (Code body)
    with c have "follows_stmt (exec_block F body st) (exec_block all_succeed body st)"
      by (simp add: exec_block_follows)
    with Code Cons.IH [OF nb] show ?thesis
      by (auto intro!: follows_case_stmt run_cells_grows)
  qed
qed

lemma run_prefix:
  assumes "flat nb"
  shows "prefix (trace (snd (run F nb))) (calls nb)"
proof -
  from assms have "follows_stmt (run F nb) (run all_succeed nb)"
    unfolding run_def by (rule run_cells_follows)
  then show ?thesis
    by (cases "run F nb"; cases "fst (run F nb)") (auto simp: calls_def)
qed

text \<open>An event of a run is the event of the run in which no call raises.\<close>

lemma event_of_run:
  assumes "flat nb" and "k < length (trace (snd (run F nb)))"
  shows "k < length (calls nb)" and "trace (snd (run F nb)) ! k = calls nb ! k"
proof -
  from run_prefix [OF assms(1), of F]
  obtain zs where "calls nb = trace (snd (run F nb)) @ zs"
    by (auto simp: prefix_def)
  with assms(2) show "k < length (calls nb)" and "trace (snd (run F nb)) ! k = calls nb ! k"
    by (simp_all add: nth_append)
qed

text \<open>A call that is followed by another event has returned.\<close>

lemma returned_when_followed:
  assumes fl: "flat nb" and j: "j < length (trace (snd (run F nb)))" and ij: "i < j"
    and inv: "is_invoke (calls nb ! i)"
  shows "\<not> F i"
proof
  assume F: "F i"
  from ij j have i: "i < length (trace (snd (run F nb)))" by simp
  with event_of_run(2) [OF fl i] inv have "is_invoke (trace (snd (run F nb)) ! i)" by simp
  with consistent_raised [OF run_consistent [OF fl] i] F
  have r: "fst (run F nb) = Some (Raised i)" by simp
  from run_consistent [OF fl, of F] r have "length (trace (snd (run F nb))) = Suc i"
    by (simp add: raise_last_def)
  with j ij show False by simp
qed

text \<open>
  When the run in which no call raises makes a call \<open>e\<close> of step \<open>s\<close> before any deploy
  call, a run that makes a deploy call has made \<open>e\<close>, and \<open>e\<close> has returned.
\<close>

lemma deploy_waits:
  assumes fl: "flat nb" and dec: "calls nb = xs @ e # ys"
    and inv: "is_invoke e" and s: "step_of e = Some s"
    and before: "\<not> list_ex (\<lambda>e. step_of e = Some Deploy) (xs @ [e])"
  shows "deploy_waits_for s F nb"
  unfolding deploy_waits_for_def
proof
  let ?tr = "trace (snd (run F nb))"
  assume "made F nb Deploy"
  then have m: "list_ex (\<lambda>e. step_of e = Some Deploy) ?tr"
    by (simp add: made_def)
  from run_prefix [OF fl, of F] dec have p: "prefix ?tr ((xs @ [e]) @ ys)"
    by simp
  have long: "Suc (length xs) < length ?tr"
  proof (rule ccontr)
    assume "\<not> Suc (length xs) < length ?tr"
    then have "length ?tr \<le> length (xs @ [e])" by simp
    with p have "prefix ?tr (xs @ [e])"
      by (metis prefix_length_prefix prefixI)
    then have "set ?tr \<subseteq> set (xs @ [e])"
      by (rule set_mono_prefix)
    with m before show False
      by (auto simp: list_ex_iff)
  qed
  from dec have at: "calls nb ! length xs = e"
    by simp
  with inv have "is_invoke (calls nb ! length xs)"
    by simp
  from returned_when_followed [OF fl long _ this] have nf: "\<not> F (length xs)"
    by simp
  from long have i: "length xs < length ?tr"
    by simp
  from event_of_run(2) [OF fl i] at have "?tr ! length xs = e"
    by simp
  with i have "(length xs, e) \<in> set (enumerate 0 ?tr)"
    by (simp add: in_set_enumerate_eq)
  with s nf show "returned F nb s"
    by (force simp: returned_def list_ex_iff)
qed


lemma deploy_waits_at:
  assumes "flat nb" and i: "i < length (calls nb)"
    and "is_invoke (calls nb ! i)" and "step_of (calls nb ! i) = Some s"
    and "\<not> list_ex (\<lambda>e. step_of e = Some Deploy) (take (Suc i) (calls nb))"
  shows "deploy_waits_for s F nb"
proof (rule deploy_waits)
  from i show "calls nb = take i (calls nb) @ calls nb ! i # drop (Suc i) (calls nb)"
    by (rule id_take_nth_drop)
  from i assms(5) show "\<not> list_ex (\<lambda>e. step_of e = Some Deploy) (take i (calls nb) @ [calls nb ! i])"
    by (simp add: take_Suc_conv_app_nth)
qed (use assms in simp_all)

section \<open>The runs of the four notebooks\<close>

lemmas cell_defs =
  install_cell_def imports_cell_def session_cell_def schema_cell_def model_builder_cell_def
  deploy_cell_def predict_cell_def cleanup_cell_def

lemmas value_defs =
  sample_input_value_def sample_output_value_def sample_response_def setup_trace_def
  setup_bindings_def model_builder_keywords_def log_level_error_def

lemmas run_defs = run_def all_succeed_def format_val_def

lemma run_nb1:
  "run all_succeed nb1 =
     (None,
      \<lparr>env = [(''predictor'', VResult 10), (''optimized_model'', VResult 9),
              (''model_builder'', VResult 5)] @ setup_bindings,
       trace = setup_trace @
         [Invoke 7 (VImported ''sagemaker.serve.builder.model_builder.ModelBuilder'') []
            (model_builder_keywords @ log_level_error),
          Invoke 9 (VAttr (VResult 5) ''display_benchmark_metrics'') [] [],
          Invoke 11 (VAttr (VResult 5) ''set_deployment_config'') []
            [(''config_name'', VStr ''lmi-optimized''),
             (''instance_type'', VStr ''ml.g5.48xlarge'')],
          Invoke 13 (VAttr (VResult 5) ''get_deployment_config'') [] [],
          Invoke 15 (VAttr (VResult 5) ''build'') [] [],
          Invoke 16 (VAttr (VResult 9) ''deploy'') [] [(''accept_eula'', VBool True)],
          Invoke 18 (VAttr (VResult 10) ''predict'') [sample_input_value] [],
          Invoke 19 (VAttr (VResult 10) ''delete_model'') [] [],
          Invoke 19 (VAttr (VResult 10) ''delete_endpoint'') []
            [(''delete_endpoint_config'', VBool True)]],
       cell = 20\<rparr>)"
  by (simp add: nb1_def cell_defs run_defs value_defs)

lemma run_nb2:
  "run all_succeed nb2 =
     (None,
      \<lparr>env = [(''predictor'', VResult 13), (''optimized_model'', VResult 12),
              (''model_builder'', VResult 11),
              (''draft_uri'', VBinOp (VResult 9) Add (VStr ''/'')),
              (''custom_draft_model_uri'', VResult 9),
              (''hf_local_download_dir'', VBinOp (VResult 5) Div (VStr ''model_repo'')),
              (''custom_draft_model_id'', VStr ''meta-llama/Meta-Llama-3-8B'')] @ setup_bindings,
       trace = setup_trace @
         [Invoke 7 (VAttr (VImported ''pathlib.Path'') ''cwd'') [] [],
          Invoke 7 (VAttr (VBinOp (VResult 5) Div (VStr ''model_repo'')) ''mkdir'') []
            [(''exist_ok'', VBool True)],
          Invoke 7 (VAttr (VImported ''huggingface_hub'') ''snapshot_download'') []
            [(''repo_id'', VStr ''meta-llama/Meta-Llama-3-8B''),
             (''revision'', VStr ''main''),
             (''local_dir'', VBinOp (VResult 5) Div (VStr ''model_repo'')),
             (''local_dir_use_symlinks'', VBool False)],
          Invoke 8 (VAttr (VBinOp (VResult 5) Div (VStr ''model_repo'')) ''as_posix'') [] [],
          Invoke 8 (VAttr (VResult 1) ''upload_data'') []
            [(''path'', VResult 8), (''bucket'', VResult 2),
             (''key_prefix'', VStr ''spec-dec-custom-draft-model'')],
          Command 10 ''!aws s3 ls {draft_uri} #verify model artifacts'',
          Invoke 11 (VImported ''sagemaker.serve.builder.model_builder.ModelBuilder'') []
            (model_builder_keywords @ log_level_error),
          Invoke 13 (VAttr (VResult 11) ''optimize'') []
            [(''instance_type'', VStr ''ml.p4d.24xlarge''),
             (''accept_eula'', VBool True),
             (''speculative_decoding_config'',
              VDict [(VStr ''ModelSource'', VBinOp (VResult 9) Add (VStr ''/''))])],
          Invoke 15 (VAttr (VResult 12) ''deploy'') [] [(''accept_eula'', VBool True)],
          Invoke 17 (VAttr (VResult 13) ''predict'') [sample_input_value] [],
          Invoke 18 (VAttr (VResult 13) ''delete_model'') [] [],
          Invoke 18 (VAttr (VResult 13) ''delete_endpoint'') []
            [(''delete_endpoint_config'', VBool True)]],
       cell = 19\<rparr>)"
  by (simp add: nb2_def cell_defs run_defs value_defs)

lemma run_nb3:
  "run all_succeed nb3 =
     (None,
      \<lparr>env = [(''predictor'', VResult 7),
              (''quantized_instance_type'', VStr ''ml.g5.12xlarge''),
              (''optimized_model'', VResult 6),
              (''model_builder'', VResult 5)] @ setup_bindings,
       trace = setup_trace @
         [Invoke 7 (VImported ''sagemaker.serve.builder.model_builder.ModelBuilder'') []
            (model_builder_keywords @ log_level_error),
          Invoke 9 (VAttr (VResult 5) ''optimize'') []
            [(''instance_type'', VStr ''ml.p4d.24xlarge''),
             (''accept_eula'', VBool True),
             (''quantization_config'',
              VDict [(VStr ''OverrideEnvironment'',
                      VDict [(VStr ''OPTION_QUANTIZE'', VStr ''awq'')])]),
             (''output_path'',
              VFormat [VStr ''s3://'', VResult 2, VStr ''/awq-quantization/''])],
          Invoke 11 (VAttr (VResult 6) ''deploy'') []
            [(''instance_type'', VStr ''ml.g5.12xlarge''), (''accept_eula'', VBool True)],
          Invoke 13 (VAttr (VResult 7) ''predict'') [sample_input_value] [],
          Invoke 14 (VAttr (VResult 7) ''delete_model'') [] [],
          Invoke 14 (VAttr (VResult 7) ''delete_endpoint'') []
            [(''delete_endpoint_config'', VBool True)]],
       cell = 15\<rparr>)"
  by (simp add: nb3_def cell_defs run_defs value_defs)

lemma run_nb4:
  "run all_succeed nb4 =
     (None,
      \<lparr>env = [(''predictor'', VResult 7), (''optimized_model'', VResult 6),
              (''model_builder'', VResult 5)] @ setup_bindings,
       trace = setup_trace @
         [Invoke 7 (VImported ''sagemaker.serve.builder.model_builder.ModelBuilder'') []
            model_builder_keywords,
          Invoke 9 (VAttr (VResult 5) ''optimize'') []
            [(''instance_type'', VStr ''ml.inf2.48xlarge''),
             (''accept_eula'', VBool True),
             (''compilation_config'',
              VDict [(VStr ''OverrideEnvironment'',
                      VDict [(VStr ''OPTION_TENSOR_PARALLEL_DEGREE'', VStr ''24''),
                             (VStr ''OPTION_N_POSITIONS'', VStr ''8192''),
                             (VStr ''OPTION_DTYPE'', VStr ''fp16''),
                             (VStr ''OPTION_ROLLING_BATCH'', VStr ''auto''),
                             (VStr ''OPTION_MAX_ROLLING_BATCH_SIZE'', VStr ''4''),
                             (VStr ''OPTION_NEURON_OPTIMIZE_LEVEL'', VStr ''2'')])]),
             (''output_path'', VFormat [VStr ''s3://'', VResult 2, VStr ''/neuron/''])],
          Invoke 11 (VAttr (VResult 6) ''deploy'') []
            [(''accept_eula'', VBool True),
             (''model_data_download_timeout'', VInt 3600),
             (''volume_size'', VInt 512)],
          Invoke 13 (VAttr (VResult 7) ''predict'') [sample_input_value] [],
          Invoke 14 (VAttr (VResult 7) ''delete_model'') [] [],
          Invoke 14 (VAttr (VResult 7) ''delete_endpoint'') []
            [(''delete_endpoint_config'', VBool True)]],
       cell = 15\<rparr>)"
  by (simp add: nb4_def cell_defs run_defs value_defs)


lemma flat_notebooks: "flat nb1" "flat nb2" "flat nb3" "flat nb4"
  by (simp_all add: flat_def nb1_def nb2_def nb3_def nb4_def cell_defs)

lemma deploy_waits_notebooks:
  "deploy_waits_for Build F nb1"
  "deploy_waits_for Optimize F nb2"
  "deploy_waits_for Optimize F nb3"
  "deploy_waits_for Optimize F nb4"
proof -
  show "deploy_waits_for Build F nb1"
    by (rule deploy_waits_at [where i = 9, OF flat_notebooks(1)])
       (simp_all add: calls_def run_nb1 setup_trace_def)
  show "deploy_waits_for Optimize F nb2"
    by (rule deploy_waits_at [where i = 12, OF flat_notebooks(2)])
       (simp_all add: calls_def run_nb2 setup_trace_def)
  show "deploy_waits_for Optimize F nb3"
    by (rule deploy_waits_at [where i = 6, OF flat_notebooks(3)])
       (simp_all add: calls_def run_nb3 setup_trace_def)
  show "deploy_waits_for Optimize F nb4"
    by (rule deploy_waits_at [where i = 6, OF flat_notebooks(4)])
       (simp_all add: calls_def run_nb4 setup_trace_def)
qed

lemma callee_names:
  "map callee_name (calls nb1) = setup_names @
     [''sagemaker.serve.builder.model_builder.ModelBuilder'', ''display_benchmark_metrics'',
      ''set_deployment_config'', ''get_deployment_config'', ''build'', ''deploy'',
      ''predict'', ''delete_model'', ''delete_endpoint'']"
  "map callee_name (calls nb2) = setup_names @
     [''cwd'', ''mkdir'', ''snapshot_download'', ''as_posix'', ''upload_data'',
      ''!aws s3 ls {draft_uri} #verify model artifacts'',
      ''sagemaker.serve.builder.model_builder.ModelBuilder'', ''optimize'', ''deploy'',
      ''predict'', ''delete_model'', ''delete_endpoint'']"
  "map callee_name (calls nb3) = setup_names @
     [''sagemaker.serve.builder.model_builder.ModelBuilder'', ''optimize'', ''deploy'',
      ''predict'', ''delete_model'', ''delete_endpoint'']"
  "map callee_name (calls nb4) = setup_names @
     [''sagemaker.serve.builder.model_builder.ModelBuilder'', ''optimize'', ''deploy'',
      ''predict'', ''delete_model'', ''delete_endpoint'']"
  by (simp_all add: calls_def run_nb1 run_nb2 run_nb3 run_nb4 setup_trace_def setup_names_def)

lemma made_deploy:
  "made all_succeed nb1 Deploy" "made all_succeed nb2 Deploy"
  "made all_succeed nb3 Deploy" "made all_succeed nb4 Deploy"
  by (simp_all add: made_def run_nb1 run_nb2 run_nb3 run_nb4 setup_trace_def)

lemmas trace_defs = calls_def bindings_def method_calls_def events_at_def

subsection \<open>Steps\<close>

lemma lineage_nb1:
  "lineage nb1 =
     [(Install, None), (Schema, None), (ModelHandle, None), (SelectConfig, Some ModelHandle),
      (Build, Some ModelHandle), (Deploy, Some Build), (Predict, Some Deploy),
      (DeleteModel, Some Deploy), (DeleteEndpoint, Some Deploy)]"
  by (simp add: lineage_def made_on_def calls_def run_nb1 setup_trace_def
        List.map_filter_simps)

lemma lineage_nb2:
  "lineage nb2 =
     [(Install, None), (Schema, None), (ModelHandle, None), (Optimize, Some ModelHandle),
      (Deploy, Some Optimize), (Predict, Some Deploy),
      (DeleteModel, Some Deploy), (DeleteEndpoint, Some Deploy)]"
  by (simp add: lineage_def made_on_def calls_def run_nb2 setup_trace_def
        List.map_filter_simps)

lemma lineage_nb3:
  "lineage nb3 =
     [(Install, None), (Schema, None), (ModelHandle, None), (Optimize, Some ModelHandle),
      (Deploy, Some Optimize), (Predict, Some Deploy),
      (DeleteModel, Some Deploy), (DeleteEndpoint, Some Deploy)]"
  by (simp add: lineage_def made_on_def calls_def run_nb3 setup_trace_def
        List.map_filter_simps)

lemma lineage_nb4:
  "lineage nb4 =
     [(Install, None), (Schema, None), (ModelHandle, None), (Optimize, Some ModelHandle),
      (Deploy, Some Optimize), (Predict, Some Deploy),
      (DeleteModel, Some Deploy), (DeleteEndpoint, Some Deploy)]"
  by (simp add: lineage_def made_on_def calls_def run_nb4 setup_trace_def
        List.map_filter_simps)

lemma steps_lineage: "steps nb = map fst (lineage nb)"
proof -
  have "List.map_filter step_of tr =
        map fst (List.map_filter
          (\<lambda>e. case step_of e of None \<Rightarrow> None | Some s \<Rightarrow> Some (s, g e)) tr)" for tr g
    by (induction tr) (auto simp: List.map_filter_simps split: option.splits)
  then show ?thesis
    by (simp add: steps_def lineage_def)
qed

lemma model_ids_notebooks:
  "model_ids nb1 = [Some published_model_id]"
  "model_ids nb2 = [Some published_model_id]"
  "model_ids nb3 = [Some published_model_id]"
  "model_ids nb4 = [Some published_model_id]"
  by (simp_all add: model_ids_def keyword_def published_model_id_def calls_def
        run_nb1 run_nb2 run_nb3 run_nb4 setup_trace_def model_builder_keywords_def)

text \<open>
  C1, as stated, fails on notebook 1: it deploys a configuration that was optimized ahead
  of time (\<^verbatim>\<open>set_deployment_config\<close>, then \<^verbatim>\<open>build\<close>) and makes no \<^verbatim>\<open>optimize\<close> call, so no
  optimization request precedes its deploy call.
\<close>

theorem nb1_no_optimization_request:
  "\<not> optimizes_before_deploying nb1 \<and> \<not> performs_claimed_sequence nb1"
  by (simp add: optimizes_before_deploying_def performs_claimed_sequence_def
        claimed_sequence_def steps_lineage lineage_nb1)

text \<open>
  C1, amended.  Every notebook runs to its end when no call raises, and binds its model
  handle to the published model identifier.  Notebooks 2, 3 and 4 perform, in order:
  install, schema, model handle, the optimization request and the wait for its completion,
  deploy of what the request returned, one inference call on the deployed predictor, and
  the two delete calls on it.  Request and wait are the one \<^verbatim>\<open>optimize\<close> call on the model
  handle: the calls of each run are listed by name and hold no other wait or poll, and
  whichever calls raise, the deploy call is made only in a run in which \<^verbatim>\<open>optimize\<close> has
  returned.  Notebook 1 submits no optimization request: after the model handle it selects
  the pre-optimized configuration \<^verbatim>\<open>lmi-optimized\<close> and calls \<^verbatim>\<open>build\<close> on the model handle,
  deploys what \<^verbatim>\<open>build\<close> returned, once it has returned, and goes on with inference and the
  two delete calls.
\<close>

theorem notebook_sequences:
  "map (\<lambda>nb. fst (run all_succeed nb)) notebooks = [None, None, None, None] \<and>
   map model_ids notebooks =
     [[Some published_model_id], [Some published_model_id],
      [Some published_model_id], [Some published_model_id]] \<and>
   lineage nb1 =
     [(Install, None), (Schema, None), (ModelHandle, None), (SelectConfig, Some ModelHandle),
      (Build, Some ModelHandle), (Deploy, Some Build), (Predict, Some Deploy),
      (DeleteModel, Some Deploy), (DeleteEndpoint, Some Deploy)] \<and>
   map lineage [nb2, nb3, nb4] =
     replicate 3
       [(Install, None), (Schema, None), (ModelHandle, None), (Optimize, Some ModelHandle),
        (Deploy, Some Optimize), (Predict, Some Deploy),
        (DeleteModel, Some Deploy), (DeleteEndpoint, Some Deploy)] \<and>
   map steps [nb2, nb3, nb4] = replicate 3 claimed_sequence \<and>
   map optimizes_before_deploying notebooks = [False, True, True, True] \<and>
   map (keyword ''config_name'') (method_calls ''set_deployment_config'' nb1) =
     [Some (VStr ''lmi-optimized'')] \<and>
   map callee_name (calls nb1) = setup_names @
     [''sagemaker.serve.builder.model_builder.ModelBuilder'', ''display_benchmark_metrics'',
      ''set_deployment_config'', ''get_deployment_config'', ''build'', ''deploy'',
      ''predict'', ''delete_model'', ''delete_endpoint''] \<and>
   map callee_name (calls nb2) = setup_names @
     [''cwd'', ''mkdir'', ''snapshot_download'', ''as_posix'', ''upload_data'',
      ''!aws s3 ls {draft_uri} #verify model artifacts'',
      ''sagemaker.serve.builder.model_builder.ModelBuilder'', ''optimize'', ''deploy'',
      ''predict'', ''delete_model'', ''delete_endpoint''] \<and>
   map callee_name (calls nb3) = setup_names @
     [''sagemaker.serve.builder.model_builder.ModelBuilder'', ''optimize'', ''deploy'',
      ''predict'', ''delete_model'', ''delete_endpoint''] \<and>
   map callee_name (calls nb4) = setup_names @
     [''sagemaker.serve.builder.model_builder.ModelBuilder'', ''optimize'', ''deploy'',
      ''predict'', ''delete_model'', ''delete_endpoint''] \<and>
   deploy_waits_for Build F nb1 \<and>
   list_all (deploy_waits_for Optimize F) [nb2, nb3, nb4]"
proof -
  have a: "map (\<lambda>nb. fst (run all_succeed nb)) notebooks = [None, None, None, None]"
    by (simp add: notebooks_def run_nb1 run_nb2 run_nb3 run_nb4)
  have b: "map model_ids notebooks =
     [[Some published_model_id], [Some published_model_id],
      [Some published_model_id], [Some published_model_id]]"
    by (simp add: notebooks_def model_ids_notebooks)
  have c: "map steps [nb2, nb3, nb4] = replicate 3 claimed_sequence"
    by (simp add: steps_lineage lineage_nb2 lineage_nb3 lineage_nb4 claimed_sequence_def
          numeral_3_eq_3)
  have d: "map optimizes_before_deploying notebooks = [False, True, True, True]"
    by (simp add: notebooks_def optimizes_before_deploying_def steps_lineage
          lineage_nb1 lineage_nb2 lineage_nb3 lineage_nb4)
  have e: "map (keyword ''config_name'') (method_calls ''set_deployment_config'' nb1) =
     [Some (VStr ''lmi-optimized'')]"
    by (simp add: keyword_def trace_defs run_nb1 setup_trace_def)
  have f: "list_all (deploy_waits_for Optimize F) [nb2, nb3, nb4]"
    by (simp add: deploy_waits_notebooks)
  from a b c d e f show ?thesis
    by (simp add: lineage_nb1 lineage_nb2 lineage_nb3 lineage_nb4 numeral_3_eq_3
          callee_names deploy_waits_notebooks(1))
qed

text \<open>
  C1 at an input, the runs in which no call raises: each makes its deploy call, and the
  call deploy waits for, \<^verbatim>\<open>build\<close> in notebook 1 and \<^verbatim>\<open>optimize\<close> in the others, has
  returned.
\<close>

theorem notebook_sequences_witness:
  "made all_succeed nb1 Deploy \<and> returned all_succeed nb1 Build \<and>
   list_all (\<lambda>nb. made all_succeed nb Deploy \<and> returned all_succeed nb Optimize)
     [nb2, nb3, nb4]"
  using notebook_sequences [of all_succeed] made_deploy
  by (simp add: deploy_waits_for_def)

subsection \<open>Optimization requests\<close>

text \<open>
  C2, as stated, fails on notebook 2: its \<^verbatim>\<open>optimize\<close> call, the speculative-decoding
  request, has no \<^verbatim>\<open>output_path\<close> argument.
\<close>

theorem nb2_optimize_without_output_path: "\<not> passes_output_path nb2"
  by (simp add: passes_output_path_def keyword_def trace_defs run_nb2 setup_trace_def)

text \<open>
  C2, amended.  The quantization request of notebook 3 and the compilation request of
  notebook 4 pass \<^verbatim>\<open>output_path\<close>, an \<^verbatim>\<open>s3://\<close> location under the session's default bucket
  (\<^verbatim>\<open>/awq-quantization/\<close> and \<^verbatim>\<open>/neuron/\<close>).  The speculative-decoding request of notebook 2
  passes only \<^verbatim>\<open>instance_type\<close>, \<^verbatim>\<open>accept_eula\<close> and \<^verbatim>\<open>speculative_decoding_config\<close>.
\<close>

theorem output_path_of_optimize_calls:
  "passes_output_path nb3 \<and> passes_output_path nb4 \<and>
   map (keyword ''output_path'') (method_calls ''optimize'' nb3) =
     [Some (VFormat [VStr ''s3://'', VResult 2, VStr ''/awq-quantization/''])] \<and>
   map (keyword ''output_path'') (method_calls ''optimize'' nb4) =
     [Some (VFormat [VStr ''s3://'', VResult 2, VStr ''/neuron/''])] \<and>
   map (producer (calls nb3)) [VResult 2] =
     [Some (Invoke 4 (VAttr (VResult 1) ''default_bucket'') [] [])] \<and>
   map (producer (calls nb4)) [VResult 2] =
     [Some (Invoke 4 (VAttr (VResult 1) ''default_bucket'') [] [])] \<and>
   map (map fst \<circ> keyword_args) (method_calls ''optimize'' nb2) =
     [[''instance_type'', ''accept_eula'', ''speculative_decoding_config'']]"
proof -
  have nb3: "method_calls ''optimize'' nb3 =
     [Invoke 9 (VAttr (VResult 5) ''optimize'') []
        [(''instance_type'', VStr ''ml.p4d.24xlarge''),
         (''accept_eula'', VBool True),
         (''quantization_config'',
          VDict [(VStr ''OverrideEnvironment'',
                  VDict [(VStr ''OPTION_QUANTIZE'', VStr ''awq'')])]),
         (''output_path'',
          VFormat [VStr ''s3://'', VResult 2, VStr ''/awq-quantization/''])]]"
    by (simp add: trace_defs run_nb3 setup_trace_def)
  have nb4: "map (keyword ''output_path'') (method_calls ''optimize'' nb4) =
     [Some (VFormat [VStr ''s3://'', VResult 2, VStr ''/neuron/''])]"
    by (simp add: keyword_def trace_defs run_nb4 setup_trace_def)
  have nb4': "method_calls ''optimize'' nb4 \<noteq> []"
    using nb4 by auto
  have p3: "map (producer (calls nb3)) [VResult 2] =
     [Some (Invoke 4 (VAttr (VResult 1) ''default_bucket'') [] [])]"
    by (simp add: calls_def run_nb3 setup_trace_def)
  have p4: "map (producer (calls nb4)) [VResult 2] =
     [Some (Invoke 4 (VAttr (VResult 1) ''default_bucket'') [] [])]"
    by (simp add: calls_def run_nb4 setup_trace_def)
  have nb2: "map (map fst \<circ> keyword_args) (method_calls ''optimize'' nb2) =
     [[''instance_type'', ''accept_eula'', ''speculative_decoding_config'']]"
    by (simp add: trace_defs run_nb2 setup_trace_def)
  have ok3: "passes_output_path nb3"
    by (simp add: passes_output_path_def nb3 keyword_def)
  have ok4: "passes_output_path nb4"
    using nb4 nb4' by (auto simp: passes_output_path_def list_all_iff)
  from nb3 nb4 p3 p4 nb2 ok3 ok4 show ?thesis
    by (simp add: keyword_def)
qed

subsection \<open>Configurations\<close>

text \<open>
  C7.  Every configuration passed to an \<^verbatim>\<open>optimize\<close> call is of one of the two shapes:
  notebook 1 passes none; the quantization and compilation configurations of notebooks 3
  and 4 are \<^verbatim>\<open>OverrideEnvironment\<close> mappings in which every key and every value is a string
  (the tensor-parallel degree is \<^verbatim>\<open>"24"\<close>, the maximum rolling batch size \<^verbatim>\<open>"4"\<close>); the
  speculative-decoding configuration of notebook 2 holds a \<^verbatim>\<open>ModelSource\<close>, the value of
  \<^verbatim>\<open>draft_uri\<close>: what \<^verbatim>\<open>upload_data\<close> returned for the draft model, followed by \<^verbatim>\<open>"/"\<close>.
\<close>

theorem optimization_config_shapes:
  "list_all (\<lambda>nb. list_all (\<lambda>c. config_kind c \<noteq> None) (optimization_configs nb)) notebooks \<and>
   map (map config_kind \<circ> optimization_configs) notebooks =
     [[], [Some DraftModelPointer], [Some EnvironmentMapping], [Some EnvironmentMapping]] \<and>
   optimization_configs nb3 =
     [VDict [(VStr ''OverrideEnvironment'', VDict [(VStr ''OPTION_QUANTIZE'', VStr ''awq'')])]] \<and>
   optimization_configs nb4 =
     [VDict [(VStr ''OverrideEnvironment'',
              VDict [(VStr ''OPTION_TENSOR_PARALLEL_DEGREE'', VStr ''24''),
                     (VStr ''OPTION_N_POSITIONS'', VStr ''8192''),
                     (VStr ''OPTION_DTYPE'', VStr ''fp16''),
                     (VStr ''OPTION_ROLLING_BATCH'', VStr ''auto''),
                     (VStr ''OPTION_MAX_ROLLING_BATCH_SIZE'', VStr ''4''),
                     (VStr ''OPTION_NEURON_OPTIMIZE_LEVEL'', VStr ''2'')])]] \<and>
   map model_source (optimization_configs nb2) = [map_of (bindings nb2) ''draft_uri''] \<and>
   map_of (bindings nb2) ''draft_uri'' = Some (VBinOp (VResult 9) Add (VStr ''/'')) \<and>
   map (producer (calls nb2)) [VResult 9] =
     [Some (Invoke 8 (VAttr (VResult 1) ''upload_data'') []
        [(''path'', VResult 8), (''bucket'', VResult 2),
         (''key_prefix'', VStr ''spec-dec-custom-draft-model'')])]"
proof -
  have c1: "optimization_configs nb1 = []"
    by (simp add: optimization_configs_def trace_defs run_nb1 setup_trace_def)
  have c2: "optimization_configs nb2 =
     [VDict [(VStr ''ModelSource'', VBinOp (VResult 9) Add (VStr ''/''))]]"
    by (simp add: optimization_configs_def config_keywords_def trace_defs run_nb2
          setup_trace_def)
  have c3: "optimization_configs nb3 =
     [VDict [(VStr ''OverrideEnvironment'', VDict [(VStr ''OPTION_QUANTIZE'', VStr ''awq'')])]]"
    by (simp add: optimization_configs_def config_keywords_def trace_defs run_nb3
          setup_trace_def)
  have c4: "optimization_configs nb4 =
     [VDict [(VStr ''OverrideEnvironment'',
              VDict [(VStr ''OPTION_TENSOR_PARALLEL_DEGREE'', VStr ''24''),
                     (VStr ''OPTION_N_POSITIONS'', VStr ''8192''),
                     (VStr ''OPTION_DTYPE'', VStr ''fp16''),
                     (VStr ''OPTION_ROLLING_BATCH'', VStr ''auto''),
                     (VStr ''OPTION_MAX_ROLLING_BATCH_SIZE'', VStr ''4''),
                     (VStr ''OPTION_NEURON_OPTIMIZE_LEVEL'', VStr ''2'')])]]"
    by (simp add: optimization_configs_def config_keywords_def trace_defs run_nb4
          setup_trace_def)
  have d: "map_of (bindings nb2) ''draft_uri'' = Some (VBinOp (VResult 9) Add (VStr ''/''))"
    by (simp add: bindings_def run_nb2)
  have p: "map (producer (calls nb2)) [VResult 9] =
     [Some (Invoke 8 (VAttr (VResult 1) ''upload_data'') []
        [(''path'', VResult 8), (''bucket'', VResult 2),
         (''key_prefix'', VStr ''spec-dec-custom-draft-model'')])]"
    by (simp add: calls_def run_nb2 setup_trace_def)
  from d p show ?thesis
    by (simp add: notebooks_def c1 c2 c3 c4)
qed

subsection \<open>Inference and teardown\<close>

lemma last_code_cells:
  "last_code_cell nb1 = Some 19" "last_code_cell nb2 = Some 18"
  "last_code_cell nb3 = Some 14" "last_code_cell nb4 = Some 14"
  by (simp_all add: last_code_cell_def nb1_def nb2_def nb3_def nb4_def cell_defs)

lemma teardown_nb1: "predicts_once_then_tears_down nb1"
  by (simp add: predicts_once_then_tears_down_def last_code_cells made_on_def keyword_def
        is_teardown_def trace_defs run_nb1 setup_trace_def setup_bindings_def)

lemma teardown_nb2: "predicts_once_then_tears_down nb2"
  by (simp add: predicts_once_then_tears_down_def last_code_cells made_on_def keyword_def
        is_teardown_def trace_defs run_nb2 setup_trace_def setup_bindings_def)

lemma teardown_nb3: "predicts_once_then_tears_down nb3"
  by (simp add: predicts_once_then_tears_down_def last_code_cells made_on_def keyword_def
        is_teardown_def trace_defs run_nb3 setup_trace_def setup_bindings_def)

lemma teardown_nb4: "predicts_once_then_tears_down nb4"
  by (simp add: predicts_once_then_tears_down_def last_code_cells made_on_def keyword_def
        is_teardown_def trace_defs run_nb4 setup_trace_def setup_bindings_def)

text \<open>
  C6.  In every notebook there is exactly one inference call, \<^verbatim>\<open>predict\<close> on the sample
  input, made on the deployed predictor in a cell before the last code cell; the last
  code cell deletes the model and the endpoint (with its configuration) of that
  predictor; and once the first delete call is made, no other call follows but the
  second delete.
\<close>

theorem teardown_after_single_prediction:
  "list_all predicts_once_then_tears_down notebooks"
  by (simp add: notebooks_def teardown_nb1 teardown_nb2 teardown_nb3 teardown_nb4)

subsection \<open>Instance types\<close>

text \<open>
  C8.  Notebook 1 selects its deployment configuration with instance type
  \<^verbatim>\<open>ml.g5.48xlarge\<close> and its deploy call names no other.  The instance types its
  prerequisites name, and the ones it binds to \<^verbatim>\<open>gpu_instance_type\<close> and
  \<^verbatim>\<open>neuron_instance_type\<close>, are \<^verbatim>\<open>ml.p4d.24xlarge\<close> and \<^verbatim>\<open>ml.inf2.48xlarge\<close>;
  \<^verbatim>\<open>ml.g5.48xlarge\<close> is neither.
\<close>

theorem nb1_deployment_instance_type:
  "instance_types ''set_deployment_config'' nb1 = [Some (VStr ''ml.g5.48xlarge'')] \<and>
   instance_types ''deploy'' nb1 = [None] \<and>
   map (map_of (bindings nb1)) [''gpu_instance_type'', ''neuron_instance_type''] =
     [Some (VStr ''ml.p4d.24xlarge''), Some (VStr ''ml.inf2.48xlarge'')] \<and>
   instance_types_named nb1_notices = [''ml.p4d.24xlarge'', ''ml.inf2.48xlarge''] \<and>
   ''ml.g5.48xlarge'' \<notin> set (instance_types_named nb1_notices) \<and>
   Some (VStr ''ml.g5.48xlarge'') \<notin>
     set (map (map_of (bindings nb1)) [''gpu_instance_type'', ''neuron_instance_type''])"
proof -
  have a: "instance_types ''set_deployment_config'' nb1 = [Some (VStr ''ml.g5.48xlarge'')]"
    by (simp add: instance_types_def keyword_def trace_defs run_nb1 setup_trace_def)
  have b: "instance_types ''deploy'' nb1 = [None]"
    by (simp add: instance_types_def keyword_def trace_defs run_nb1 setup_trace_def)
  have c: "map (map_of (bindings nb1)) [''gpu_instance_type'', ''neuron_instance_type''] =
     [Some (VStr ''ml.p4d.24xlarge''), Some (VStr ''ml.inf2.48xlarge'')]"
    by (simp add: bindings_def run_nb1 setup_bindings_def)
  have d: "instance_types_named nb1_notices = [''ml.p4d.24xlarge'', ''ml.inf2.48xlarge'']"
    by (simp add: instance_types_named_def nb1_notices_def name_char_def)
  from a b c d show ?thesis
    by simp
qed

text \<open>
  C9.  In notebook 3 the quantization job is requested for \<^verbatim>\<open>gpu_instance_type\<close>,
  \<^verbatim>\<open>ml.p4d.24xlarge\<close>, and the quantized model is deployed on
  \<^verbatim>\<open>quantized_instance_type\<close>, \<^verbatim>\<open>ml.g5.12xlarge\<close>: the deploy call names an instance type
  of its own, different from the one of the optimization request, and a smaller one, as
  the comment of the notebook says: \<^verbatim>\<open>12xlarge\<close> against \<^verbatim>\<open>24xlarge\<close>.
\<close>

theorem nb3_deploys_on_other_instance_type:
  "instance_types ''optimize'' nb3 = [Some (VStr ''ml.p4d.24xlarge'')] \<and>
   instance_types ''deploy'' nb3 = [Some (VStr ''ml.g5.12xlarge'')] \<and>
   instance_types ''deploy'' nb3 \<noteq> instance_types ''optimize'' nb3 \<and>
   map (map_of (bindings nb3)) [''gpu_instance_type'', ''quantized_instance_type''] =
     [Some (VStr ''ml.p4d.24xlarge''), Some (VStr ''ml.g5.12xlarge'')] \<and>
   map instance_size (instance_types ''deploy'' nb3) = [Some 12] \<and>
   map instance_size (instance_types ''optimize'' nb3) = [Some 24] \<and>
   list_all2 smaller (instance_types ''deploy'' nb3) (instance_types ''optimize'' nb3) \<and>
   \<not> list_all2 smaller (instance_types ''optimize'' nb3) (instance_types ''deploy'' nb3) \<and>
   ''smaller'' \<in> set (comment_words quantized_instance_type_comment)"
proof -
  have a: "instance_types ''optimize'' nb3 = [Some (VStr ''ml.p4d.24xlarge'')]"
    by (simp add: instance_types_def keyword_def trace_defs run_nb3 setup_trace_def)
  have b: "instance_types ''deploy'' nb3 = [Some (VStr ''ml.g5.12xlarge'')]"
    by (simp add: instance_types_def keyword_def trace_defs run_nb3 setup_trace_def)
  have c: "map (map_of (bindings nb3)) [''gpu_instance_type'', ''quantized_instance_type''] =
     [Some (VStr ''ml.p4d.24xlarge''), Some (VStr ''ml.g5.12xlarge'')]"
    by (simp add: bindings_def run_nb3 setup_bindings_def)
  have d: "xlarge_multiple ''ml.g5.12xlarge'' = Some 12"
    by (simp add: xlarge_multiple_def size_name_def digit_values_def Let_def)
  have e: "xlarge_multiple ''ml.p4d.24xlarge'' = Some 24"
    by (simp add: xlarge_multiple_def size_name_def digit_values_def Let_def)
  have f: "''smaller'' \<in> set (comment_words quantized_instance_type_comment)"
    by (simp add: comment_words_def quantized_instance_type_comment_def name_char_def)
  from a b c d e f show ?thesis
    by (simp add: smaller_def)
qed

section \<open>No conditional logic, no error handling\<close>

text \<open>
  With a handler around it, a call that raises need not end the run: the absence of
  \<^verbatim>\<open>Try\<close> is what the propagation of failures rests on.
\<close>

lemma handler_swallows:
  "raised_at (\<lambda>k. k = 0) [Code [Import ''f'', Try [Expr (Call (Name ''f'') [] [])] []]] 0 \<and>
   fst (run (\<lambda>k. k = 0) [Code [Import ''f'', Try [Expr (Call (Name ''f'') [] [])] []]]) = None"
  by (simp add: raised_at_def run_def)

text \<open>
  C5.  No code cell of any of the four notebooks holds an \<^verbatim>\<open>If\<close> or a \<^verbatim>\<open>Try\<close> statement
  (none at the top of a cell, hence none nested in one).  So whichever call raises, in
  whichever of the notebooks, the run ends there with the exception of that very call.
\<close>

theorem failures_propagate_uncaught:
  "nb \<in> set notebooks \<Longrightarrow>
   flat nb \<and> (raised_at F nb k \<longrightarrow> fst (run F nb) = Some (Raised k))"
proof -
  assume "nb \<in> set notebooks"
  then have fl: "flat nb"
    by (auto simp: notebooks_def flat_notebooks)
  have "fst (run F nb) = Some (Raised k)" if r: "raised_at F nb k"
  proof -
    from fl have "consistent F (trace (snd (run F nb))) (fst (run F nb))"
      by (rule run_consistent)
    from consistent_raised [OF this] r show ?thesis
      by (simp add: raised_at_def)
  qed
  with fl show ?thesis by simp
qed

text \<open>
  C5 at an input: in notebook 2 the thirteenth event of the run is the \<^verbatim>\<open>optimize\<close> call;
  when it raises, the run ends with its exception.
\<close>

theorem failures_propagate_uncaught_witness:
  "nb2 \<in> set notebooks \<and> flat nb2 \<and> raised_at (\<lambda>k. k = 12) nb2 12 \<and>
   fst (run (\<lambda>k. k = 12) nb2) = Some (Raised 12)"
proof -
  have m: "nb2 \<in> set notebooks"
    by (simp add: notebooks_def)
  have r: "raised_at (\<lambda>k. k = 12) nb2 12"
    by (simp add: raised_at_def run_def nb2_def cell_defs format_val_def)
  from failures_propagate_uncaught [OF m, of "\<lambda>k. k = 12" 12] m r show ?thesis
    by simp
qed

section \<open>The template\<close>

lemmas template_defs = parameter_def role_properties_def template_def

text \<open>
  C3, as stated, fails on \<^verbatim>\<open>SageMakerIAMRole\<close>: its declaration has neither a
  \<^verbatim>\<open>MinLength\<close> nor an \<^verbatim>\<open>AllowedPattern\<close>.
\<close>

theorem role_name_not_validated: "\<not> validated_non_empty ''SageMakerIAMRole''"
  by (simp add: validated_non_empty_def template_defs)

text \<open>
  C3, amended.  The template has the two parameters.  \<^verbatim>\<open>SageMakerNotebookName\<close> is
  validated as a non-empty string matching a pattern: \<^verbatim>\<open>MinLength\<close> 1, \<^verbatim>\<open>MaxLength\<close> 63 and
  the \<^verbatim>\<open>AllowedPattern\<close> of the file.  \<^verbatim>\<open>SageMakerIAMRole\<close> declares a description, the
  type and a default, and no length or pattern constraint.
\<close>

theorem parameter_constraints:
  "parameter_names = [''SageMakerNotebookName'', ''SageMakerIAMRole''] \<and>
   validated_non_empty ''SageMakerNotebookName'' \<and>
   map (\<lambda>k. at_path [''Parameters'', ''SageMakerNotebookName'', k] template)
       [''MinLength'', ''MaxLength'', ''AllowedPattern''] =
     [Some (JNumber 1), Some (JNumber 63), Some (JString ''^[a-z0-9](-*[a-z0-9])*'')] \<and>
   keys (parameter ''SageMakerIAMRole'') = [''Description'', ''Type'', ''Default''] \<and>
   map (\<lambda>k. at_path [''Parameters'', ''SageMakerIAMRole'', k] template)
       [''MinLength'', ''MaxLength'', ''AllowedPattern''] = [None, None, None]"
  by (simp add: parameter_names_def validated_non_empty_def template_defs)

text \<open>
  C4, as stated, fails: the role also attaches \<^verbatim>\<open>AmazonSageMakerFullAccess\<close>, and its
  inline statement also allows \<^verbatim>\<open>ec2:DescribeAvailabilityZones\<close>.
\<close>

theorem access_broader_than_claimed: "\<not> no_broader_access"
  by (simp add: no_broader_access_def managed_policy_arns_def read_only_managed_policies_def
        template_defs)

text \<open>
  C4, amended.  The notebook instance runs under the role of the template.  The role has
  one inline statement, which allows twelve registry actions, reading and writing, and
  \<^verbatim>\<open>ec2:DescribeAvailabilityZones\<close>, on the registry's repositories; and it attaches three
  managed policies: full access to SageMaker, and read-only access to CloudFormation and
  to Translate.
\<close>

theorem provisioned_access:
  "at_path [''Resources'', ''NotebookInstance'', ''Properties'', ''RoleArn''] template =
     Some (JObject [(''Fn::GetAtt'', JArray [JString ''Role'', JString ''Arn''])]) \<and>
   map (field ''Effect'') inline_statements = [Some (JString ''Allow'')] \<and>
   map actions inline_statements =
     [[JString ''ecr:BatchGetImage'', JString ''ecr:BatchCheckLayerAvailability'',
       JString ''ecr:CompleteLayerUpload'', JString ''ecr:DescribeImages'',
       JString ''ecr:DescribeRepositories'', JString ''ecr:GetDownloadUrlForLayer'',
       JString ''ecr:InitiateLayerUpload'', JString ''ecr:ListImages'',
       JString ''ecr:PutImage'', JString ''ecr:UploadLayerPart'',
       JString ''ecr:CreateRepository'', JString ''ecr:GetAuthorizationToken'',
       JString ''ec2:DescribeAvailabilityZones'']] \<and>
   map resources inline_statements = [[ecr_repository_arn]] \<and>
   managed_policy_arns =
     [JString ''arn:aws:iam::aws:policy/AmazonSageMakerFullAccess'',
      JString ''arn:aws:iam::aws:policy/AWSCloudFormationReadOnlyAccess'',
      JString ''arn:aws:iam::aws:policy/TranslateReadOnly'']"
  by (simp add: inline_statements_def managed_policy_arns_def actions_def resources_def
        ecr_repository_arn_def template_defs)

text \<open>
  C10.  The inline policy of the role has one statement, and every resource of every
  statement is the repository pattern of the deploying account and region
  (\<^verbatim>\<open>arn:aws:ecr:${AWS::Region}:${AWS::AccountId}:repository/*\<close>), never \<^verbatim>\<open>*\<close>.
\<close>

theorem registry_permissions_resource_scoped:
  "length inline_statements = 1 \<and> list_all resource_scoped inline_statements"
  by (simp add: inline_statements_def resource_scoped_def resources_def
        ecr_repository_arn_def template_defs)

end
